theory Spec2Isabelle
  imports Main
begin

section \<open>JavaScript strings\<close>

text \<open>
  A JavaScript string is a sequence of UTF-16 code units; \<open>length\<close>, \<open>substring\<close>,
  \<open>includes\<close> and \<open>split\<close> all count code units. A string is modelled as the list
  of its code units, so that the trademark glyph U+2122 is one element. \<open>str\<close> turns an
  ASCII literal into such a list.
\<close>

type_synonym jsstring = "nat list"

definition str :: "string \<Rightarrow> jsstring" where
  "str s = map of_char s"

text \<open>\<open>s.substring(a, b)\<close>: both indices are clamped to the length and swapped when out of order.\<close>

definition substring :: "jsstring \<Rightarrow> nat \<Rightarrow> nat \<Rightarrow> jsstring" where
  "substring s a b =
     (let a' = min a (length s); b' = min b (length s)
      in take (max a' b' - min a' b') (drop (min a' b') s))"

text \<open>A string is falsy exactly when it is empty (\<open>x || null\<close>, \<open>if (x)\<close>).\<close>

definition truthy :: "jsstring \<Rightarrow> bool" where
  "truthy s = (s \<noteq> [])"

section \<open>Zone tables\<close>

text \<open>\<open>ZONE_DATA.zones\<close> of the zone selector: zone code to temperature range in Fahrenheit.\<close>

record zone_range =
  range_min :: int
  range_max :: int
  range_label :: jsstring

definition ZONE_DATA_zones_entries :: "(string \<times> int \<times> int \<times> string) list" where
  "ZONE_DATA_zones_entries = [
   (''1a'', - 60, - 55, ''1a''),
   (''1b'', - 55, - 50, ''1b''),
   (''2a'', - 50, - 45, ''2a''),
   (''2b'', - 45, - 40, ''2b''),
   (''3a'', - 40, - 35, ''3a''),
   (''3b'', - 35, - 30, ''3b''),
   (''4a'', - 30, - 25, ''4a''),
   (''4b'', - 25, - 20, ''4b''),
   (''5a'', - 20, - 15, ''5a''),
   (''5b'', - 15, - 10, ''5b''),
   (''6a'', - 10, - 5, ''6a''),
   (''6b'', - 5, 0, ''6b''),
   (''7a'', 0, 5, ''7a''),
   (''7b'', 5, 10, ''7b''),
   (''8a'', 10, 15, ''8a''),
   (''8b'', 15, 20, ''8b''),
   (''9a'', 20, 25, ''9a''),
   (''9b'', 25, 30, ''9b''),
   (''10a'', 30, 35, ''10a''),
   (''10b'', 35, 40, ''10b''),
   (''11a'', 40, 45, ''11a''),
   (''11b'', 45, 50, ''11b''),
   (''12a'', 50, 55, ''12a''),
   (''12b'', 55, 60, ''12b''),
   (''13a'', 60, 65, ''13a''),
   (''13b'', 65, 70, ''13b'')]"

definition ZONE_DATA_zones :: "jsstring \<rightharpoonup> zone_range" where
  "ZONE_DATA_zones =
     map_of (map (\<lambda>(k, r). (str k, case r of (lo, hi, l) \<Rightarrow>
                    \<lparr>range_min = lo, range_max = hi, range_label = str l\<rparr>))
       ZONE_DATA_zones_entries)"

text \<open>
  \<open>ZONE_DATA.zipToZone\<close> as embedded in the zone selector widget with the synchronous
  \<open>getZoneFromZip\<close>: 3-digit ZIP prefix to zone code. The object literal is written in
  regional groups, each under a comment naming the region; the groups are kept here, in
  the order of the source. No key is repeated.
\<close>

definition zipToZone_northeast :: "(string \<times> string) list" where
  "zipToZone_northeast = [
   (''010'', ''5b''), (''011'', ''5b''), (''012'', ''5a''), (''013'', ''5b''), (''014'', ''6a''),
   (''015'', ''6a''), (''016'', ''6a''), (''017'', ''6b''), (''018'', ''6b''), (''019'', ''6a''),
   (''020'', ''6b''), (''021'', ''6b''), (''022'', ''6b''), (''023'', ''6a''), (''024'', ''6a''),
   (''025'', ''6a''), (''026'', ''5b''), (''027'', ''5b'')]"

definition zipToZone_new_york :: "(string \<times> string) list" where
  "zipToZone_new_york = [
   (''100'', ''7a''), (''101'', ''7a''), (''102'', ''6b''), (''103'', ''6b''), (''104'', ''6b''),
   (''105'', ''6b''), (''106'', ''6b''), (''107'', ''6a''), (''108'', ''6a''), (''109'', ''5b''),
   (''110'', ''7a''), (''111'', ''7a''), (''112'', ''7a''), (''113'', ''7a''), (''114'', ''7b''),
   (''115'', ''7b''), (''116'', ''7a''), (''117'', ''7a''), (''118'', ''7a''), (''119'', ''7a''),
   (''120'', ''5b''), (''121'', ''5b''), (''122'', ''5a''), (''123'', ''5a''), (''124'', ''5b''),
   (''125'', ''5b''), (''126'', ''5b''), (''127'', ''6a''), (''128'', ''4b''), (''129'', ''5a''),
   (''130'', ''5a''), (''131'', ''5a''), (''132'', ''5a''), (''133'', ''5b''), (''134'', ''5b''),
   (''135'', ''5b''), (''136'', ''5b''), (''137'', ''6a''), (''138'', ''5b''), (''139'', ''5b''),
   (''140'', ''6a''), (''141'', ''6a''), (''142'', ''6a''), (''143'', ''5b''), (''144'', ''5b''),
   (''145'', ''5b''), (''146'', ''5b''), (''147'', ''5b''), (''148'', ''5b''), (''149'', ''5b'')]"

definition zipToZone_mid_atlantic :: "(string \<times> string) list" where
  "zipToZone_mid_atlantic = [
   (''150'', ''6b''), (''151'', ''6b''), (''152'', ''6a''), (''153'', ''6a''), (''154'', ''6a''),
   (''155'', ''6a''), (''156'', ''6a''), (''157'', ''6b''), (''158'', ''6a''), (''159'', ''6a''),
   (''160'', ''6a''), (''161'', ''6a''), (''162'', ''5b''), (''163'', ''5b''), (''164'', ''5b''),
   (''165'', ''6a''), (''166'', ''6a''), (''167'', ''6a''), (''168'', ''6a''), (''169'', ''6a''),
   (''170'', ''6b''), (''171'', ''6b''), (''172'', ''6b''), (''173'', ''6b''), (''174'', ''6b''),
   (''175'', ''6b''), (''176'', ''6b''), (''177'', ''6b''), (''178'', ''6b''), (''179'', ''6b''),
   (''180'', ''6b''), (''181'', ''6a''), (''182'', ''5b''), (''183'', ''6a''), (''184'', ''6a''),
   (''185'', ''6a''), (''186'', ''5b''), (''187'', ''6a''), (''188'', ''6b''), (''189'', ''6b''),
   (''190'', ''7a''), (''191'', ''7a''), (''192'', ''7a''), (''193'', ''6b''), (''194'', ''7a''),
   (''195'', ''7a''), (''196'', ''7a''), (''197'', ''7a''), (''198'', ''7a''), (''199'', ''7a'')]"

definition zipToZone_dc_maryland_virginia :: "(string \<times> string) list" where
  "zipToZone_dc_maryland_virginia = [
   (''200'', ''7a''), (''201'', ''7a''), (''202'', ''7a''), (''203'', ''7a''), (''204'', ''7a''),
   (''205'', ''7a''), (''206'', ''7a''), (''207'', ''7a''), (''208'', ''7a''), (''209'', ''7a''),
   (''210'', ''7a''), (''211'', ''7a''), (''212'', ''7a''), (''213'', ''7a''), (''214'', ''7b''),
   (''215'', ''7a''), (''216'', ''7a''), (''217'', ''6b''), (''218'', ''6b''), (''219'', ''6b''),
   (''220'', ''7a''), (''221'', ''7a''), (''222'', ''7a''), (''223'', ''7a''), (''224'', ''7a''),
   (''225'', ''7a''), (''226'', ''7a''), (''227'', ''7a''), (''228'', ''7a''), (''229'', ''7b''),
   (''230'', ''7a''), (''231'', ''7b''), (''232'', ''7b''), (''233'', ''8a''), (''234'', ''7b''),
   (''235'', ''8a''), (''236'', ''8a''), (''237'', ''7b''), (''238'', ''7a''), (''239'', ''7a''),
   (''240'', ''6b''), (''241'', ''6b''), (''242'', ''6b''), (''243'', ''6b''), (''244'', ''6b''),
   (''245'', ''6b''), (''246'', ''6b''), (''247'', ''6b''), (''248'', ''6a''), (''249'', ''6b'')]"

definition zipToZone_north_carolina :: "(string \<times> string) list" where
  "zipToZone_north_carolina = [
   (''270'', ''7b''), (''271'', ''7b''), (''272'', ''7b''), (''273'', ''7b''), (''274'', ''7b''),
   (''275'', ''7b''), (''276'', ''7a''), (''277'', ''7b''), (''278'', ''7a''), (''279'', ''7a''),
   (''280'', ''8a''), (''281'', ''8a''), (''282'', ''7b''), (''283'', ''8a''), (''284'', ''8a''),
   (''285'', ''8a''), (''286'', ''7b''), (''287'', ''7b''), (''288'', ''7a''), (''289'', ''7b'')]"

definition zipToZone_south_carolina :: "(string \<times> string) list" where
  "zipToZone_south_carolina = [
   (''290'', ''8a''), (''291'', ''8a''), (''292'', ''8a''), (''293'', ''8a''), (''294'', ''8a''),
   (''295'', ''8b''), (''296'', ''8a''), (''297'', ''7b''), (''298'', ''8a''), (''299'', ''8b'')]"

definition zipToZone_georgia :: "(string \<times> string) list" where
  "zipToZone_georgia = [
   (''300'', ''7b''), (''301'', ''8a''), (''302'', ''8a''), (''303'', ''7b''), (''304'', ''8a''),
   (''305'', ''8a''), (''306'', ''8a''), (''307'', ''8a''), (''308'', ''8a''), (''309'', ''8a''),
   (''310'', ''8a''), (''311'', ''8a''), (''312'', ''8b''), (''313'', ''8b''), (''314'', ''8b''),
   (''315'', ''8b''), (''316'', ''8b''), (''317'', ''8b''), (''318'', ''9a''), (''319'', ''9a'')]"

definition zipToZone_florida :: "(string \<times> string) list" where
  "zipToZone_florida = [
   (''320'', ''8b''), (''321'', ''9a''), (''322'', ''9a''), (''323'', ''9b''), (''324'', ''9a''),
   (''325'', ''9a''), (''326'', ''9a''), (''327'', ''9b''), (''328'', ''9b''), (''329'', ''10a''),
   (''330'', ''10a''), (''331'', ''10a''), (''332'', ''10b''), (''333'', ''10b''), (''334'', ''10b''),
   (''335'', ''10a''), (''336'', ''10a''), (''337'', ''10a''), (''338'', ''10a''), (''339'', ''10a''),
   (''340'', ''10b''), (''341'', ''10a''), (''342'', ''9b''), (''344'', ''9b''), (''346'', ''9b''),
   (''347'', ''9b''), (''349'', ''9a'')]"

definition zipToZone_ohio :: "(string \<times> string) list" where
  "zipToZone_ohio = [
   (''430'', ''6a''), (''431'', ''5b''), (''432'', ''6a''), (''433'', ''6a''), (''434'', ''5b''),
   (''435'', ''5b''), (''436'', ''5b''), (''437'', ''5b''), (''438'', ''5b''), (''439'', ''5b''),
   (''440'', ''6a''), (''441'', ''6a''), (''442'', ''6a''), (''443'', ''5b''), (''444'', ''5b''),
   (''445'', ''6a''), (''446'', ''5b''), (''447'', ''6a''), (''448'', ''6a''), (''449'', ''6a''),
   (''450'', ''6a''), (''451'', ''6a''), (''452'', ''6a''), (''453'', ''6a''), (''454'', ''5b''),
   (''455'', ''6a''), (''456'', ''6a''), (''457'', ''6a''), (''458'', ''6a''), (''459'', ''6a'')]"

definition zipToZone_michigan :: "(string \<times> string) list" where
  "zipToZone_michigan = [
   (''480'', ''6a''), (''481'', ''6a''), (''482'', ''6a''), (''483'', ''6a''), (''484'', ''5b''),
   (''485'', ''5b''), (''486'', ''5b''), (''487'', ''5b''), (''488'', ''5b''), (''489'', ''5b''),
   (''490'', ''5b''), (''491'', ''5b''), (''492'', ''5b''), (''493'', ''5a''), (''494'', ''5a''),
   (''495'', ''5a''), (''496'', ''5a''), (''497'', ''4b''), (''498'', ''4b''), (''499'', ''4b'')]"

definition zipToZone_illinois :: "(string \<times> string) list" where
  "zipToZone_illinois = [
   (''600'', ''5b''), (''601'', ''5b''), (''602'', ''5b''), (''603'', ''5b''), (''604'', ''5b''),
   (''605'', ''5b''), (''606'', ''5b''), (''607'', ''5b''), (''608'', ''5a''), (''609'', ''5b''),
   (''610'', ''5b''), (''611'', ''5a''), (''612'', ''5a''), (''613'', ''5a''), (''614'', ''5b''),
   (''615'', ''5b''), (''616'', ''5b''), (''617'', ''5b''), (''618'', ''6a''), (''619'', ''5b''),
   (''620'', ''5b''), (''621'', ''5b''), (''622'', ''6a''), (''623'', ''6a''), (''624'', ''6a''),
   (''625'', ''5b''), (''626'', ''5b''), (''627'', ''6a''), (''628'', ''6a''), (''629'', ''6b'')]"

definition zipToZone_texas :: "(string \<times> string) list" where
  "zipToZone_texas = [
   (''750'', ''8a''), (''751'', ''8a''), (''752'', ''8a''), (''753'', ''8a''), (''754'', ''8a''),
   (''755'', ''8a''), (''756'', ''8a''), (''757'', ''8a''), (''758'', ''8b''), (''759'', ''8a''),
   (''760'', ''7b''), (''761'', ''8a''), (''762'', ''8a''), (''763'', ''8a''), (''764'', ''8a''),
   (''765'', ''8a''), (''766'', ''7b''), (''767'', ''7b''), (''768'', ''7b''), (''769'', ''7b''),
   (''770'', ''9a''), (''771'', ''9a''), (''772'', ''9a''), (''773'', ''9a''), (''774'', ''9a''),
   (''775'', ''9a''), (''776'', ''9a''), (''777'', ''9a''), (''778'', ''9b''), (''779'', ''9a''),
   (''780'', ''9a''), (''781'', ''9a''), (''782'', ''9a''), (''783'', ''9b''), (''784'', ''9b''),
   (''785'', ''9b''), (''786'', ''9b''), (''787'', ''8b''), (''788'', ''8b''), (''789'', ''8a''),
   (''790'', ''7a''), (''791'', ''7a''), (''792'', ''7a''), (''793'', ''7a''), (''794'', ''7a''),
   (''795'', ''7a''), (''796'', ''7b''), (''797'', ''7b''), (''798'', ''8a''), (''799'', ''7b'')]"

definition zipToZone_california :: "(string \<times> string) list" where
  "zipToZone_california = [
   (''900'', ''10b''), (''901'', ''10b''), (''902'', ''10b''), (''903'', ''10a''), (''904'', ''10a''),
   (''905'', ''10b''), (''906'', ''10b''), (''907'', ''10a''), (''908'', ''10a''), (''909'', ''9b''),
   (''910'', ''10a''), (''911'', ''10a''), (''912'', ''10a''), (''913'', ''10a''), (''914'', ''9b''),
   (''915'', ''9b''), (''916'', ''9b''), (''917'', ''9b''), (''918'', ''10a''), (''919'', ''9b''),
   (''920'', ''10b''), (''921'', ''10b''), (''922'', ''9b''), (''923'', ''9b''), (''924'', ''9b''),
   (''925'', ''9b''), (''926'', ''10a''), (''927'', ''10a''), (''928'', ''10a''), (''929'', ''9a''),
   (''930'', ''9b''), (''931'', ''9a''), (''932'', ''9a''), (''933'', ''9a''), (''934'', ''9b''),
   (''935'', ''8b''), (''936'', ''9a''), (''937'', ''9a''), (''938'', ''9a''), (''939'', ''9b''),
   (''940'', ''10a''), (''941'', ''10a''), (''942'', ''10a''), (''943'', ''9b''), (''944'', ''10a''),
   (''945'', ''10a''), (''946'', ''10a''), (''947'', ''10a''), (''948'', ''9b''), (''949'', ''9b''),
   (''950'', ''9b''), (''951'', ''9b''), (''952'', ''9a''), (''953'', ''9b''), (''954'', ''9a''),
   (''955'', ''9a''), (''956'', ''9a''), (''957'', ''9a''), (''958'', ''9a''), (''959'', ''9a''),
   (''960'', ''9a''), (''961'', ''8b'')]"

definition zipToZone_washington :: "(string \<times> string) list" where
  "zipToZone_washington = [
   (''980'', ''8b''), (''981'', ''8b''), (''982'', ''8b''), (''983'', ''8a''), (''984'', ''8a''),
   (''985'', ''8b''), (''986'', ''6b''), (''987'', ''6b''), (''988'', ''6a''), (''989'', ''6a''),
   (''990'', ''6b''), (''991'', ''6a''), (''992'', ''6a''), (''993'', ''5b''), (''994'', ''5b'')]"

definition zipToZone_oregon :: "(string \<times> string) list" where
  "zipToZone_oregon = [
   (''970'', ''8b''), (''971'', ''8b''), (''972'', ''8b''), (''973'', ''8b''), (''974'', ''8a''),
   (''975'', ''8a''), (''976'', ''7b''), (''977'', ''6b''), (''978'', ''6b''), (''979'', ''6a'')]"

definition zipToZone_colorado :: "(string \<times> string) list" where
  "zipToZone_colorado = [
   (''800'', ''5b''), (''801'', ''5b''), (''802'', ''5a''), (''803'', ''5a''), (''804'', ''5a''),
   (''805'', ''5a''), (''806'', ''5a''), (''807'', ''4b''), (''808'', ''4b''), (''809'', ''4b''),
   (''810'', ''5b''), (''811'', ''5a''), (''812'', ''4b''), (''813'', ''4b''), (''814'', ''4b''),
   (''815'', ''4b''), (''816'', ''5a'')]"

definition zipToZone_arizona :: "(string \<times> string) list" where
  "zipToZone_arizona = [
   (''850'', ''9b''), (''851'', ''9b''), (''852'', ''9b''), (''853'', ''9a''), (''855'', ''8a''),
   (''856'', ''9a''), (''857'', ''8a''), (''859'', ''7a''), (''860'', ''9a''), (''863'', ''9b''),
   (''864'', ''8b''), (''865'', ''8b'')]"

definition ZONE_DATA_zipToZone_entries :: "(string \<times> string) list" where
  "ZONE_DATA_zipToZone_entries =
     zipToZone_northeast @ zipToZone_new_york @ zipToZone_mid_atlantic @
     zipToZone_dc_maryland_virginia @ zipToZone_north_carolina @ zipToZone_south_carolina @
     zipToZone_georgia @ zipToZone_florida @ zipToZone_ohio @
     zipToZone_michigan @ zipToZone_illinois @ zipToZone_texas @
     zipToZone_california @ zipToZone_washington @ zipToZone_oregon @
     zipToZone_colorado @ zipToZone_arizona"

definition ZONE_DATA_zipToZone :: "jsstring \<rightharpoonup> jsstring" where
  "ZONE_DATA_zipToZone = map_of (map (\<lambda>(k, v). (str k, str v)) ZONE_DATA_zipToZone_entries)"

text \<open>
  The prefix entries kept in \<open>assets/zone-selector.js\<close> (prefixes 740 to 999), the second
  copy of the prefix table in the repository.
\<close>

definition asset_zipToZone_entries :: "(string \<times> string) list" where
  "asset_zipToZone_entries = [
   (''740'', ''7a''), (''741'', ''7b''), (''742'', ''7b''), (''743'', ''7a''), (''744'', ''7b''),
   (''745'', ''7b''), (''746'', ''7a''), (''747'', ''8a''), (''748'', ''7b''), (''749'', ''7b''),
   (''750'', ''8b''), (''751'', ''8b''), (''752'', ''8b''), (''753'', ''8b''), (''754'', ''8b''),
   (''755'', ''8b''), (''756'', ''8b''), (''757'', ''8b''), (''758'', ''8b''), (''759'', ''9a''),
   (''760'', ''8b''), (''761'', ''8b''), (''762'', ''8a''), (''763'', ''8a''), (''764'', ''8a''),
   (''765'', ''8b''), (''766'', ''8b''), (''767'', ''8b''), (''768'', ''8b''), (''769'', ''8a''),
   (''770'', ''9b''), (''771'', ''9b''), (''772'', ''9b''), (''773'', ''9a''), (''774'', ''9b''),
   (''775'', ''9b''), (''776'', ''9a''), (''777'', ''9b''), (''778'', ''9a''), (''779'', ''9b''),
   (''780'', ''9a''), (''781'', ''9a''), (''782'', ''9a''), (''783'', ''9b''), (''784'', ''10a''),
   (''785'', ''10a''), (''786'', ''9a''), (''787'', ''9a''), (''788'', ''9a''), (''789'', ''9a''),
   (''790'', ''7a''), (''791'', ''7a''), (''792'', ''7b''), (''793'', ''7b''), (''794'', ''7b''),
   (''795'', ''8a''), (''796'', ''8a''), (''797'', ''8a''), (''798'', ''8b''), (''799'', ''8b''),
   (''800'', ''6a''), (''801'', ''6a''), (''802'', ''6a''), (''803'', ''6a''), (''804'', ''5b''),
   (''805'', ''5b''), (''806'', ''5b''), (''807'', ''5b''), (''808'', ''5b''), (''809'', ''6a''),
   (''810'', ''6a''), (''811'', ''5b''), (''812'', ''5b''), (''813'', ''6b''), (''814'', ''6b''),
   (''815'', ''7a''), (''816'', ''6a''), (''817'', ''5b''), (''818'', ''5b''), (''819'', ''5b''),
   (''820'', ''5b''), (''821'', ''4b''), (''822'', ''5a''), (''823'', ''5a''), (''824'', ''5a''),
   (''825'', ''5a''), (''826'', ''5a''), (''827'', ''4b''), (''828'', ''5a''), (''829'', ''5a''),
   (''830'', ''4b''), (''831'', ''5b''), (''832'', ''5b''), (''833'', ''6b''), (''834'', ''5a''),
   (''835'', ''6b''), (''836'', ''7a''), (''837'', ''7a''), (''838'', ''6b''), (''839'', ''6b''),
   (''840'', ''7a''), (''841'', ''7b''), (''842'', ''7a''), (''843'', ''6a''), (''844'', ''7a''),
   (''845'', ''6a''), (''846'', ''6a''), (''847'', ''6a''), (''848'', ''7b''), (''849'', ''8b''),
   (''850'', ''10a''), (''851'', ''9a''), (''852'', ''9b''), (''853'', ''9b''), (''854'', ''9a''),
   (''855'', ''8b''), (''856'', ''8b''), (''857'', ''9b''), (''858'', ''8a''), (''859'', ''6b''),
   (''860'', ''7a''), (''861'', ''7b''), (''862'', ''8a''), (''863'', ''8b''), (''864'', ''9b''),
   (''865'', ''7a''), (''866'', ''6b''), (''867'', ''6b''), (''868'', ''6b''), (''869'', ''6b''),
   (''870'', ''6b''), (''871'', ''7b''), (''872'', ''6b''), (''873'', ''6a''), (''874'', ''7a''),
   (''875'', ''6b''), (''876'', ''7b''), (''877'', ''6a''), (''878'', ''7b''), (''879'', ''8a''),
   (''880'', ''8b''), (''881'', ''7a''), (''882'', ''8a''), (''883'', ''7a''), (''884'', ''7a''),
   (''885'', ''8b''), (''886'', ''8b''), (''887'', ''8b''), (''888'', ''8a''), (''889'', ''9a''),
   (''890'', ''9b''), (''891'', ''9b''), (''892'', ''7b''), (''893'', ''6a''), (''894'', ''7a''),
   (''895'', ''7b''), (''896'', ''7b''), (''897'', ''7a''), (''898'', ''5b''), (''899'', ''8a''),
   (''900'', ''10b''), (''901'', ''10b''), (''902'', ''10b''), (''903'', ''10b''), (''904'', ''11a''),
   (''905'', ''10b''), (''906'', ''10b''), (''907'', ''10b''), (''908'', ''10b''), (''909'', ''10b''),
   (''910'', ''10a''), (''911'', ''10a''), (''912'', ''10a''), (''913'', ''10a''), (''914'', ''10a''),
   (''915'', ''10a''), (''916'', ''10a''), (''917'', ''10a''), (''918'', ''10a''), (''919'', ''10b''),
   (''920'', ''10a''), (''921'', ''10b''), (''922'', ''10a''), (''923'', ''8b''), (''924'', ''10a''),
   (''925'', ''9b''), (''926'', ''10b''), (''927'', ''10b''), (''928'', ''10b''), (''929'', ''10b''),
   (''930'', ''10a''), (''931'', ''10b''), (''932'', ''9b''), (''933'', ''9b''), (''934'', ''10a''),
   (''935'', ''8b''), (''936'', ''9b''), (''937'', ''9b''), (''938'', ''9b''), (''939'', ''9b''),
   (''940'', ''10a''), (''941'', ''10b''), (''942'', ''9b''), (''943'', ''9b''), (''944'', ''10a''),
   (''945'', ''9b''), (''946'', ''10a''), (''947'', ''10a''), (''948'', ''10a''), (''949'', ''9b''),
   (''950'', ''9b''), (''951'', ''9b''), (''952'', ''9b''), (''953'', ''9b''), (''954'', ''9b''),
   (''955'', ''9b''), (''956'', ''9b''), (''957'', ''9b''), (''958'', ''9b''), (''959'', ''9b''),
   (''960'', ''9a''), (''961'', ''6b''), (''962'', ''7b''), (''963'', ''8b''), (''964'', ''9b''),
   (''965'', ''10b''), (''966'', ''11b''), (''967'', ''12b''), (''968'', ''12b''), (''969'', ''10b''),
   (''970'', ''8b''), (''971'', ''8b''), (''972'', ''9a''), (''973'', ''8b''), (''974'', ''8b''),
   (''975'', ''8b''), (''976'', ''6b''), (''977'', ''6b''), (''978'', ''6b''), (''979'', ''6b''),
   (''980'', ''8b''), (''981'', ''9a''), (''982'', ''8b''), (''983'', ''8b''), (''984'', ''8b''),
   (''985'', ''8b''), (''986'', ''8b''), (''987'', ''7b''), (''988'', ''7a''), (''989'', ''7a''),
   (''990'', ''6b''), (''991'', ''6b''), (''992'', ''7a''), (''993'', ''7a''), (''994'', ''7a''),
   (''995'', ''5a''), (''996'', ''4b''), (''997'', ''2a''), (''998'', ''7a''), (''999'', ''7b'')]"

definition asset_zipToZone :: "jsstring \<rightharpoonup> jsstring" where
  "asset_zipToZone = map_of (map (\<lambda>(k, v). (str k, str v)) asset_zipToZone_entries)"

section \<open>Zone resolver\<close>

text \<open>
  \<open>getZoneFromLookup(lookupTable, zipCode)\<close> of the lookup test script:
  \<open>lookupTable[zipCode.substring(0, 3)] || null\<close>. The table is the generated asset, a
  parameter here. A property read also searches \<open>Object.prototype\<close>, but every property
  name found there is longer than three code units (see \<open>object_prototype_keys\<close> below),
  so a prefix never reaches it and the read is a lookup among the table's own keys.
\<close>

definition getZoneFromLookup :: "(jsstring \<rightharpoonup> jsstring) \<Rightarrow> jsstring \<Rightarrow> jsstring option" where
  "getZoneFromLookup lookupTable zipCode =
     (let prefix = substring zipCode 0 3
      in case lookupTable prefix of
           Some z \<Rightarrow> if truthy z then Some z else None
         | None \<Rightarrow> None)"

text \<open>
  \<open>getZoneFromZip(zipCode)\<close> of the zone selector. The result object is
  \<open>{zone: zoneCode, ...ZONE_DATA.zones[zoneCode]}\<close>: the spread contributes the range's
  fields when the code has a range and nothing otherwise.
\<close>

record zone_info =
  zone :: jsstring
  spread :: "zone_range option"

definition getZoneFromZip :: "jsstring \<Rightarrow> zone_info option" where
  "getZoneFromZip zipCode =
     (let prefix = substring zipCode 0 3
      in case ZONE_DATA_zipToZone prefix of
           Some zoneCode \<Rightarrow>
             if truthy zoneCode
             then Some \<lparr>zone = zoneCode, spread = ZONE_DATA_zones zoneCode\<rparr>
             else None
         | None \<Rightarrow> None)"

section \<open>String operations used by the scripts\<close>

text \<open>
  \<open>String.prototype.toLowerCase\<close> reads the string as code points (a high surrogate
  followed by a low surrogate is one code point, any other surrogate stands for itself),
  lower-cases them by the Unicode default case conversion and writes the result back as
  code units. The conversion is the lower-case mapping of the Unicode character database,
  with the two entries of \<open>SpecialCasing\<close> that do not depend on a language: U+0130 becomes
  U+0069 U+0307, and a capital sigma becomes a final sigma when it ends a word. The tables
  are those of Unicode 14.0.
\<close>

definition is_high :: "nat \<Rightarrow> bool" where
  "is_high c = (55296 \<le> c \<and> c \<le> 56319)"

definition is_low :: "nat \<Rightarrow> bool" where
  "is_low c = (56320 \<le> c \<and> c \<le> 57343)"

fun code_points :: "jsstring \<Rightarrow> nat list" where
  "code_points (h # l # r) =
     (if is_high h \<and> is_low l then (65536 + (h - 55296) * 1024 + (l - 56320)) # code_points r
      else h # code_points (l # r))"
| "code_points [c] = [c]"
| "code_points [] = []"

definition utf16 :: "nat \<Rightarrow> jsstring" where
  "utf16 c =
     (if 65536 \<le> c then [55296 + (c - 65536) div 1024, 56320 + (c - 65536) mod 1024] else [c])"

text \<open>
  The lower-case mappings as runs (first, last, step, image of the first): a code point
  of a run, at a multiple of the step from its first, maps to the image moved by the same
  distance. The runs of Basic Latin and Latin-1, of the rest of the Basic Multilingual
  Plane, and of the supplementary planes.
\<close>

definition lower_rules_latin1 :: "(nat \<times> nat \<times> nat \<times> nat) list" where
  "lower_rules_latin1 = [
   (65, 90, 1, 97), (192, 214, 1, 224), (216, 222, 1, 248)]"

definition lower_rules_bmp :: "(nat \<times> nat \<times> nat \<times> nat) list" where
  "lower_rules_bmp = [
   (256, 302, 2, 257), (306, 310, 2, 307), (313, 327, 2, 314), (330, 374, 2, 331),
   (376, 376, 1, 255), (377, 381, 2, 378), (385, 385, 1, 595), (386, 388, 2, 387),
   (390, 390, 1, 596), (391, 391, 1, 392), (393, 394, 1, 598), (395, 395, 1, 396),
   (398, 398, 1, 477), (399, 399, 1, 601), (400, 400, 1, 603), (401, 401, 1, 402),
   (403, 403, 1, 608), (404, 404, 1, 611), (406, 406, 1, 617), (407, 407, 1, 616),
   (408, 408, 1, 409), (412, 412, 1, 623), (413, 413, 1, 626), (415, 415, 1, 629),
   (416, 420, 2, 417), (422, 422, 1, 640), (423, 423, 1, 424), (425, 425, 1, 643),
   (428, 428, 1, 429), (430, 430, 1, 648), (431, 431, 1, 432), (433, 434, 1, 650),
   (435, 437, 2, 436), (439, 439, 1, 658), (440, 440, 1, 441), (444, 444, 1, 445),
   (452, 452, 1, 454), (453, 453, 1, 454), (455, 455, 1, 457), (456, 456, 1, 457),
   (458, 458, 1, 460), (459, 475, 2, 460), (478, 494, 2, 479), (497, 497, 1, 499),
   (498, 500, 2, 499), (502, 502, 1, 405), (503, 503, 1, 447), (504, 542, 2, 505),
   (544, 544, 1, 414), (546, 562, 2, 547), (570, 570, 1, 11365), (571, 571, 1, 572),
   (573, 573, 1, 410), (574, 574, 1, 11366), (577, 577, 1, 578), (579, 579, 1, 384),
   (580, 580, 1, 649), (581, 581, 1, 652), (582, 590, 2, 583), (880, 882, 2, 881),
   (886, 886, 1, 887), (895, 895, 1, 1011), (902, 902, 1, 940), (904, 906, 1, 941),
   (908, 908, 1, 972), (910, 911, 1, 973), (913, 929, 1, 945), (931, 939, 1, 963),
   (975, 975, 1, 983), (984, 1006, 2, 985), (1012, 1012, 1, 952), (1015, 1015, 1, 1016),
   (1017, 1017, 1, 1010), (1018, 1018, 1, 1019), (1021, 1023, 1, 891), (1024, 1039, 1, 1104),
   (1040, 1071, 1, 1072), (1120, 1152, 2, 1121), (1162, 1214, 2, 1163), (1216, 1216, 1, 1231),
   (1217, 1229, 2, 1218), (1232, 1326, 2, 1233), (1329, 1366, 1, 1377), (4256, 4293, 1, 11520),
   (4295, 4295, 1, 11559), (4301, 4301, 1, 11565), (5024, 5103, 1, 43888), (5104, 5109, 1, 5112),
   (7312, 7354, 1, 4304), (7357, 7359, 1, 4349), (7680, 7828, 2, 7681), (7838, 7838, 1, 223),
   (7840, 7934, 2, 7841), (7944, 7951, 1, 7936), (7960, 7965, 1, 7952), (7976, 7983, 1, 7968),
   (7992, 7999, 1, 7984), (8008, 8013, 1, 8000), (8025, 8031, 2, 8017), (8040, 8047, 1, 8032),
   (8072, 8079, 1, 8064), (8088, 8095, 1, 8080), (8104, 8111, 1, 8096), (8120, 8121, 1, 8112),
   (8122, 8123, 1, 8048), (8124, 8124, 1, 8115), (8136, 8139, 1, 8050), (8140, 8140, 1, 8131),
   (8152, 8153, 1, 8144), (8154, 8155, 1, 8054), (8168, 8169, 1, 8160), (8170, 8171, 1, 8058),
   (8172, 8172, 1, 8165), (8184, 8185, 1, 8056), (8186, 8187, 1, 8060), (8188, 8188, 1, 8179),
   (8486, 8486, 1, 969), (8490, 8490, 1, 107), (8491, 8491, 1, 229), (8498, 8498, 1, 8526),
   (8544, 8559, 1, 8560), (8579, 8579, 1, 8580), (9398, 9423, 1, 9424), (11264, 11311, 1, 11312),
   (11360, 11360, 1, 11361), (11362, 11362, 1, 619), (11363, 11363, 1, 7549), (11364, 11364, 1, 637),
   (11367, 11371, 2, 11368), (11373, 11373, 1, 593), (11374, 11374, 1, 625), (11375, 11375, 1, 592),
   (11376, 11376, 1, 594), (11378, 11378, 1, 11379), (11381, 11381, 1, 11382), (11390, 11391, 1, 575),
   (11392, 11490, 2, 11393), (11499, 11501, 2, 11500), (11506, 11506, 1, 11507), (42560, 42604, 2, 42561),
   (42624, 42650, 2, 42625), (42786, 42798, 2, 42787), (42802, 42862, 2, 42803), (42873, 42875, 2, 42874),
   (42877, 42877, 1, 7545), (42878, 42886, 2, 42879), (42891, 42891, 1, 42892), (42893, 42893, 1, 613),
   (42896, 42898, 2, 42897), (42902, 42920, 2, 42903), (42922, 42922, 1, 614), (42923, 42923, 1, 604),
   (42924, 42924, 1, 609), (42925, 42925, 1, 620), (42926, 42926, 1, 618), (42928, 42928, 1, 670),
   (42929, 42929, 1, 647), (42930, 42930, 1, 669), (42931, 42931, 1, 43859), (42932, 42946, 2, 42933),
   (42948, 42948, 1, 42900), (42949, 42949, 1, 642), (42950, 42950, 1, 7566), (42951, 42953, 2, 42952),
   (42960, 42960, 1, 42961), (42966, 42968, 2, 42967), (42997, 42997, 1, 42998), (65313, 65338, 1, 65345)]"

definition lower_rules_astral :: "(nat \<times> nat \<times> nat \<times> nat) list" where
  "lower_rules_astral = [
   (66560, 66599, 1, 66600), (66736, 66771, 1, 66776), (66928, 66938, 1, 66967), (66940, 66954, 1, 66979),
   (66956, 66962, 1, 66995), (66964, 66965, 1, 67003), (68736, 68786, 1, 68800), (71840, 71871, 1, 71872),
   (93760, 93791, 1, 93792), (125184, 125217, 1, 125218)]"

definition rule_applies :: "nat \<Rightarrow> nat \<times> nat \<times> nat \<times> nat \<Rightarrow> bool" where
  "rule_applies c r = (case r of (lo, hi, step, img) \<Rightarrow> lo \<le> c \<and> c \<le> hi \<and> (c - lo) mod step = 0)"

definition simple_lower :: "nat \<Rightarrow> nat" where
  "simple_lower c =
     (case find (rule_applies c) (lower_rules_latin1 @ lower_rules_bmp @ lower_rules_astral) of
        Some (lo, hi, step, img) \<Rightarrow> img + (c - lo)
      | None \<Rightarrow> c)"

text \<open>
  The condition \<open>Final_Sigma\<close>: going back from the sigma over case-ignorable code points
  there is a cased letter, and going forward over case-ignorable code points there is
  none. A case-ignorable code point is skipped before it is asked whether it is cased, so
  \<open>cased_ranges\<close> lists the cased code points that are not case-ignorable.
\<close>

definition cased_ranges :: "(nat \<times> nat) list" where
  "cased_ranges = [
   (65, 90), (97, 122), (170, 170), (181, 181), (186, 186), (192, 214),
   (216, 246), (248, 442), (444, 447), (452, 659), (661, 687), (880, 883),
   (886, 887), (891, 893), (895, 895), (902, 902), (904, 906), (908, 908),
   (910, 929), (931, 1013), (1015, 1153), (1162, 1327), (1329, 1366), (1376, 1416),
   (4256, 4293), (4295, 4295), (4301, 4301), (4304, 4346), (4349, 4351), (5024, 5109),
   (5112, 5117), (7296, 7304), (7312, 7354), (7357, 7359), (7424, 7467), (7531, 7543),
   (7545, 7578), (7680, 7957), (7960, 7965), (7968, 8005), (8008, 8013), (8016, 8023),
   (8025, 8025), (8027, 8027), (8029, 8029), (8031, 8061), (8064, 8116), (8118, 8124),
   (8126, 8126), (8130, 8132), (8134, 8140), (8144, 8147), (8150, 8155), (8160, 8172),
   (8178, 8180), (8182, 8188), (8450, 8450), (8455, 8455), (8458, 8467), (8469, 8469),
   (8473, 8477), (8484, 8484), (8486, 8486), (8488, 8488), (8490, 8493), (8495, 8500),
   (8505, 8505), (8508, 8511), (8517, 8521), (8526, 8526), (8544, 8575), (8579, 8580),
   (9398, 9449), (11264, 11387), (11390, 11492), (11499, 11502), (11506, 11507), (11520, 11557),
   (11559, 11559), (11565, 11565), (42560, 42605), (42624, 42651), (42786, 42863), (42865, 42887),
   (42891, 42894), (42896, 42954), (42960, 42961), (42963, 42963), (42965, 42969), (42997, 42998),
   (43002, 43002), (43824, 43866), (43872, 43880), (43888, 43967), (64256, 64262), (64275, 64279),
   (65313, 65338), (65345, 65370), (66560, 66639), (66736, 66771), (66776, 66811), (66928, 66938),
   (66940, 66954), (66956, 66962), (66964, 66965), (66967, 66977), (66979, 66993), (66995, 67001),
   (67003, 67004), (68736, 68786), (68800, 68850), (71840, 71903), (93760, 93823), (119808, 119892),
   (119894, 119964), (119966, 119967), (119970, 119970), (119973, 119974), (119977, 119980), (119982, 119993),
   (119995, 119995), (119997, 120003), (120005, 120069), (120071, 120074), (120077, 120084), (120086, 120092),
   (120094, 120121), (120123, 120126), (120128, 120132), (120134, 120134), (120138, 120144), (120146, 120485),
   (120488, 120512), (120514, 120538), (120540, 120570), (120572, 120596), (120598, 120628), (120630, 120654),
   (120656, 120686), (120688, 120712), (120714, 120744), (120746, 120770), (120772, 120779), (122624, 122633),
   (122635, 122654), (125184, 125251), (127280, 127305), (127312, 127337), (127344, 127369)]"

definition case_ignorable_ranges :: "(nat \<times> nat) list" where
  "case_ignorable_ranges = [
   (39, 39), (46, 46), (58, 58), (94, 94), (96, 96), (168, 168),
   (173, 173), (175, 175), (180, 180), (183, 184), (688, 879), (884, 885),
   (890, 890), (900, 901), (903, 903), (1155, 1161), (1369, 1369), (1375, 1375),
   (1425, 1469), (1471, 1471), (1473, 1474), (1476, 1477), (1479, 1479), (1524, 1524),
   (1536, 1541), (1552, 1562), (1564, 1564), (1600, 1600), (1611, 1631), (1648, 1648),
   (1750, 1757), (1759, 1768), (1770, 1773), (1807, 1807), (1809, 1809), (1840, 1866),
   (1958, 1968), (2027, 2037), (2042, 2042), (2045, 2045), (2070, 2093), (2137, 2139),
   (2184, 2184), (2192, 2193), (2200, 2207), (2249, 2306), (2362, 2362), (2364, 2364),
   (2369, 2376), (2381, 2381), (2385, 2391), (2402, 2403), (2417, 2417), (2433, 2433),
   (2492, 2492), (2497, 2500), (2509, 2509), (2530, 2531), (2558, 2558), (2561, 2562),
   (2620, 2620), (2625, 2626), (2631, 2632), (2635, 2637), (2641, 2641), (2672, 2673),
   (2677, 2677), (2689, 2690), (2748, 2748), (2753, 2757), (2759, 2760), (2765, 2765),
   (2786, 2787), (2810, 2815), (2817, 2817), (2876, 2876), (2879, 2879), (2881, 2884),
   (2893, 2893), (2901, 2902), (2914, 2915), (2946, 2946), (3008, 3008), (3021, 3021),
   (3072, 3072), (3076, 3076), (3132, 3132), (3134, 3136), (3142, 3144), (3146, 3149),
   (3157, 3158), (3170, 3171), (3201, 3201), (3260, 3260), (3263, 3263), (3270, 3270),
   (3276, 3277), (3298, 3299), (3328, 3329), (3387, 3388), (3393, 3396), (3405, 3405),
   (3426, 3427), (3457, 3457), (3530, 3530), (3538, 3540), (3542, 3542), (3633, 3633),
   (3636, 3642), (3654, 3662), (3761, 3761), (3764, 3772), (3782, 3782), (3784, 3789),
   (3864, 3865), (3893, 3893), (3895, 3895), (3897, 3897), (3953, 3966), (3968, 3972),
   (3974, 3975), (3981, 3991), (3993, 4028), (4038, 4038), (4141, 4144), (4146, 4151),
   (4153, 4154), (4157, 4158), (4184, 4185), (4190, 4192), (4209, 4212), (4226, 4226),
   (4229, 4230), (4237, 4237), (4253, 4253), (4348, 4348), (4957, 4959), (5906, 5908),
   (5938, 5939), (5970, 5971), (6002, 6003), (6068, 6069), (6071, 6077), (6086, 6086),
   (6089, 6099), (6103, 6103), (6109, 6109), (6155, 6159), (6211, 6211), (6277, 6278),
   (6313, 6313), (6432, 6434), (6439, 6440), (6450, 6450), (6457, 6459), (6679, 6680),
   (6683, 6683), (6742, 6742), (6744, 6750), (6752, 6752), (6754, 6754), (6757, 6764),
   (6771, 6780), (6783, 6783), (6823, 6823), (6832, 6862), (6912, 6915), (6964, 6964),
   (6966, 6970), (6972, 6972), (6978, 6978), (7019, 7027), (7040, 7041), (7074, 7077),
   (7080, 7081), (7083, 7085), (7142, 7142), (7144, 7145), (7149, 7149), (7151, 7153),
   (7212, 7219), (7222, 7223), (7288, 7293), (7376, 7378), (7380, 7392), (7394, 7400),
   (7405, 7405), (7412, 7412), (7416, 7417), (7468, 7530), (7544, 7544), (7579, 7679),
   (8125, 8125), (8127, 8129), (8141, 8143), (8157, 8159), (8173, 8175), (8189, 8190),
   (8203, 8207), (8216, 8217), (8228, 8228), (8231, 8231), (8234, 8238), (8288, 8292),
   (8294, 8303), (8305, 8305), (8319, 8319), (8336, 8348), (8400, 8432), (11388, 11389),
   (11503, 11505), (11631, 11631), (11647, 11647), (11744, 11775), (11823, 11823), (12293, 12293),
   (12330, 12333), (12337, 12341), (12347, 12347), (12441, 12446), (12540, 12542), (40981, 40981),
   (42232, 42237), (42508, 42508), (42607, 42610), (42612, 42621), (42623, 42623), (42652, 42655),
   (42736, 42737), (42752, 42785), (42864, 42864), (42888, 42890), (42994, 42996), (43000, 43001),
   (43010, 43010), (43014, 43014), (43019, 43019), (43045, 43046), (43052, 43052), (43204, 43205),
   (43232, 43249), (43263, 43263), (43302, 43309), (43335, 43345), (43392, 43394), (43443, 43443),
   (43446, 43449), (43452, 43453), (43471, 43471), (43493, 43494), (43561, 43566), (43569, 43570),
   (43573, 43574), (43587, 43587), (43596, 43596), (43632, 43632), (43644, 43644), (43696, 43696),
   (43698, 43700), (43703, 43704), (43710, 43711), (43713, 43713), (43741, 43741), (43756, 43757),
   (43763, 43764), (43766, 43766), (43867, 43871), (43881, 43883), (44005, 44005), (44008, 44008),
   (44013, 44013), (64286, 64286), (64434, 64450), (65024, 65039), (65043, 65043), (65056, 65071),
   (65106, 65106), (65109, 65109), (65279, 65279), (65287, 65287), (65294, 65294), (65306, 65306),
   (65342, 65342), (65344, 65344), (65392, 65392), (65438, 65439), (65507, 65507), (65529, 65531),
   (66045, 66045), (66272, 66272), (66422, 66426), (67456, 67461), (67463, 67504), (67506, 67514),
   (68097, 68099), (68101, 68102), (68108, 68111), (68152, 68154), (68159, 68159), (68325, 68326),
   (68900, 68903), (69291, 69292), (69446, 69456), (69506, 69509), (69633, 69633), (69688, 69702),
   (69744, 69744), (69747, 69748), (69759, 69761), (69811, 69814), (69817, 69818), (69821, 69821),
   (69826, 69826), (69837, 69837), (69888, 69890), (69927, 69931), (69933, 69940), (70003, 70003),
   (70016, 70017), (70070, 70078), (70089, 70092), (70095, 70095), (70191, 70193), (70196, 70196),
   (70198, 70199), (70206, 70206), (70367, 70367), (70371, 70378), (70400, 70401), (70459, 70460),
   (70464, 70464), (70502, 70508), (70512, 70516), (70712, 70719), (70722, 70724), (70726, 70726),
   (70750, 70750), (70835, 70840), (70842, 70842), (70847, 70848), (70850, 70851), (71090, 71093),
   (71100, 71101), (71103, 71104), (71132, 71133), (71219, 71226), (71229, 71229), (71231, 71232),
   (71339, 71339), (71341, 71341), (71344, 71349), (71351, 71351), (71453, 71455), (71458, 71461),
   (71463, 71467), (71727, 71735), (71737, 71738), (71995, 71996), (71998, 71998), (72003, 72003),
   (72148, 72151), (72154, 72155), (72160, 72160), (72193, 72202), (72243, 72248), (72251, 72254),
   (72263, 72263), (72273, 72278), (72281, 72283), (72330, 72342), (72344, 72345), (72752, 72758),
   (72760, 72765), (72767, 72767), (72850, 72871), (72874, 72880), (72882, 72883), (72885, 72886),
   (73009, 73014), (73018, 73018), (73020, 73021), (73023, 73029), (73031, 73031), (73104, 73105),
   (73109, 73109), (73111, 73111), (73459, 73460), (78896, 78904), (92912, 92916), (92976, 92982),
   (92992, 92995), (94031, 94031), (94095, 94111), (94176, 94177), (94179, 94180), (110576, 110579),
   (110581, 110587), (110589, 110590), (113821, 113822), (113824, 113827), (118528, 118573), (118576, 118598),
   (119143, 119145), (119155, 119170), (119173, 119179), (119210, 119213), (119362, 119364), (121344, 121398),
   (121403, 121452), (121461, 121461), (121476, 121476), (121499, 121503), (121505, 121519), (122880, 122886),
   (122888, 122904), (122907, 122913), (122915, 122916), (122918, 122922), (123184, 123197), (123566, 123566),
   (123628, 123631), (125136, 125142), (125252, 125259), (127995, 127999), (917505, 917505), (917536, 917631),
   (917760, 917999)]"

definition in_ranges :: "(nat \<times> nat) list \<Rightarrow> nat \<Rightarrow> bool" where
  "in_ranges rs c = list_ex (\<lambda>(lo, hi). lo \<le> c \<and> c \<le> hi) rs"

definition final_sigma :: "nat list \<Rightarrow> nat list \<Rightarrow> bool" where
  "final_sigma before after =
     ((case dropWhile (in_ranges case_ignorable_ranges) before of
         c # _ \<Rightarrow> in_ranges cased_ranges c | [] \<Rightarrow> False) \<and>
      (case dropWhile (in_ranges case_ignorable_ranges) after of
         c # _ \<Rightarrow> \<not> in_ranges cased_ranges c | [] \<Rightarrow> True))"

text \<open>
  The code points of the string from left to right; \<open>before\<close> holds the code points
  already passed, nearest first.
\<close>

fun lower_cps :: "nat list \<Rightarrow> nat list \<Rightarrow> nat list" where
  "lower_cps before [] = []"
| "lower_cps before (c # after) =
     (if c = 931 then [if final_sigma before after then 962 else 963]
      else if c = 304 then [105, 775]
      else [simple_lower c]) @ lower_cps (c # before) after"

definition toLowerCase :: "jsstring \<Rightarrow> jsstring" where
  "toLowerCase s = concat (map utf16 (lower_cps [] (code_points s)))"

text \<open>
  The class \<open>\s\<close> of a regular expression, which is also what \<open>trim\<close> removes:
  tab, line feed, vertical tab, form feed, carriage return, space, no-break space,
  U+1680, U+2000 to U+200A, the line and paragraph separators, U+202F, U+205F, U+3000
  and the byte order mark.
\<close>

definition is_space :: "nat \<Rightarrow> bool" where
  "is_space c =
     ((9 \<le> c \<and> c \<le> 13) \<or> c = 32 \<or> c = 160 \<or> c = 5760 \<or> (8192 \<le> c \<and> c \<le> 8202) \<or>
      c = 8232 \<or> c = 8233 \<or> c = 8239 \<or> c = 8287 \<or> c = 12288 \<or> c = 65279)"

text \<open>\<open>\d\<close>, and \<open>.\<close> (anything but a line terminator).\<close>

definition is_digit :: "nat \<Rightarrow> bool" where
  "is_digit c = (48 \<le> c \<and> c \<le> 57)"

definition is_dot :: "nat \<Rightarrow> bool" where
  "is_dot c = (c \<noteq> 10 \<and> c \<noteq> 13 \<and> c \<noteq> 8232 \<and> c \<noteq> 8233)"

text \<open>The character class of the trademark glyphs: U+2122, U+00AE, U+00A9.\<close>

definition is_glyph :: "nat \<Rightarrow> bool" where
  "is_glyph c = (c = 8482 \<or> c = 174 \<or> c = 169)"

definition trim :: "jsstring \<Rightarrow> jsstring" where
  "trim s = rev (dropWhile is_space (rev (dropWhile is_space s)))"

text \<open>\<open>s.replace(/\s+/g, ' ')\<close>: every maximal run of white space becomes one space.\<close>

function collapse_ws :: "jsstring \<Rightarrow> jsstring" where
  "collapse_ws [] = []"
| "collapse_ws (c # cs) =
     (if is_space c then 32 # collapse_ws (dropWhile is_space cs) else c # collapse_ws cs)"
  by pat_completeness auto
termination
  by (relation "measure length") (auto simp: length_dropWhile_le le_imp_less_Suc)

definition starts_with :: "jsstring \<Rightarrow> jsstring \<Rightarrow> bool" where
  "starts_with p s = (take (length p) s = p)"

text \<open>\<open>s.includes(p)\<close>: \<open>p\<close> occurs in \<open>s\<close> as a contiguous run.\<close>

fun js_includes :: "jsstring \<Rightarrow> jsstring \<Rightarrow> bool" where
  "js_includes [] p = (p = [])"
| "js_includes (c # cs) p = (starts_with p (c # cs) \<or> js_includes cs p)"

text \<open>\<open>s.replace(p, r)\<close> with a string pattern: only the first occurrence is replaced.\<close>

fun replace_first :: "jsstring \<Rightarrow> jsstring \<Rightarrow> jsstring \<Rightarrow> jsstring" where
  "replace_first p r [] = (if p = [] then r else [])"
| "replace_first p r (c # cs) =
     (if starts_with p (c # cs) then r @ drop (length p) (c # cs)
      else c # replace_first p r cs)"

text \<open>\<open>s.split(d)\<close> with a one-unit separator; the empty string splits into one empty word.\<close>

fun split_on :: "nat \<Rightarrow> jsstring \<Rightarrow> jsstring list" where
  "split_on d [] = [[]]"
| "split_on d (c # cs) =
     (if c = d then [] # split_on d cs
      else (case split_on d cs of w # ws \<Rightarrow> (c # w) # ws | [] \<Rightarrow> [[c]]))"

section \<open>The suffix patterns of \<open>extractPlantName\<close>\<close>

text \<open>
  Every suffix pattern ends in \<open>$\<close>, so a match runs to the end of the string and
  \<open>s.replace(pattern, '')\<close> cuts the string at the leftmost index from which the rest
  matches the whole pattern. A pattern is modelled as the predicate "the rest matches
  from its first unit to the end", and \<open>replace_to_end\<close> is the replacement.
\<close>

fun replace_to_end :: "(jsstring \<Rightarrow> bool) \<Rightarrow> jsstring \<Rightarrow> jsstring" where
  "replace_to_end m [] = []"
| "replace_to_end m (c # cs) = (if m (c # cs) then [] else c # replace_to_end m cs)"

text \<open>
  The pieces of the patterns, each returning what is left after it. \<open>\s*\<close> and \<open>\d+\<close>
  are greedy, and in these patterns what follows them never starts with a unit of their
  own class, so giving back units cannot turn a failure into a match. Under the flag
  \<open>i\<close> a lower-case ASCII letter of the pattern matches itself and its capital only.
\<close>

definition skip_ws :: "jsstring \<Rightarrow> jsstring" where
  "skip_ws s = dropWhile is_space s"

definition digits1 :: "jsstring \<Rightarrow> jsstring option" where
  "digits1 s = (case s of c # cs \<Rightarrow> if is_digit c then Some (dropWhile is_digit cs) else None | [] \<Rightarrow> None)"

definition ci_eq :: "nat \<Rightarrow> nat \<Rightarrow> bool" where
  "ci_eq p c = (c = p \<or> c + 32 = p)"

definition lit_ci :: "jsstring \<Rightarrow> jsstring \<Rightarrow> jsstring option" where
  "lit_ci l s =
     (if length l \<le> length s \<and> list_all2 ci_eq l (take (length l) s)
      then Some (drop (length l) s) else None)"

definition units :: "jsstring list" where
  "units = map str [''gal'', ''gallon'', ''qt'', ''quart'', ''inch'', ''in'', ''ft'', ''feet'', ''pack'', ''ct'']"

text \<open>\<open>(gal|gallon|qt|quart|inch|in|ft|feet|pack|ct).*$\<close>\<close>

definition unit_rest :: "jsstring \<Rightarrow> bool" where
  "unit_rest s =
     list_ex (\<lambda>u. case lit_ci u s of Some t \<Rightarrow> list_all is_dot t | None \<Rightarrow> False) units"

text \<open>\<open>/\s*-\s*\d+\s*(gal|gallon|qt|quart|inch|in|ft|feet|pack|ct).*$/i\<close>\<close>

definition pat_dash_size :: "jsstring \<Rightarrow> bool" where
  "pat_dash_size s =
     (case skip_ws s of
        c # r \<Rightarrow> c = 45 \<and> (case digits1 (skip_ws r) of Some t \<Rightarrow> unit_rest (skip_ws t) | None \<Rightarrow> False)
      | [] \<Rightarrow> False)"

text \<open>\<open>/\s*\(\d+.*?\)$/\<close>\<close>

definition pat_paren :: "jsstring \<Rightarrow> bool" where
  "pat_paren s =
     (case skip_ws s of
        c # d # r \<Rightarrow> c = 40 \<and> is_digit d \<and> r \<noteq> [] \<and> last r = 41 \<and> list_all is_dot (butlast r)
      | _ \<Rightarrow> False)"

text \<open>\<open>/\s*\d+\s*(gal|gallon|qt|quart|inch|in|ft|feet|pack|ct).*$/i\<close>\<close>

definition pat_size :: "jsstring \<Rightarrow> bool" where
  "pat_size s = (case digits1 (skip_ws s) of Some t \<Rightarrow> unit_rest (skip_ws t) | None \<Rightarrow> False)"

text \<open>\<open>/\s*bare\s*root.*$/i\<close>\<close>

definition pat_bare_root :: "jsstring \<Rightarrow> bool" where
  "pat_bare_root s =
     (case lit_ci (str ''bare'') (skip_ws s) of
        Some r \<Rightarrow> (case lit_ci (str ''root'') (skip_ws r) of Some t \<Rightarrow> list_all is_dot t | None \<Rightarrow> False)
      | None \<Rightarrow> False)"

text \<open>\<open>/\s*potted.*$/i\<close>\<close>

definition pat_potted :: "jsstring \<Rightarrow> bool" where
  "pat_potted s =
     (case lit_ci (str ''potted'') (skip_ws s) of Some t \<Rightarrow> list_all is_dot t | None \<Rightarrow> False)"

text \<open>\<open>/\s*tree\s*$/i\<close>, \<open>/\s*shrub\s*$/i\<close>, \<open>/\s*plant\s*$/i\<close>\<close>

definition pat_word :: "jsstring \<Rightarrow> jsstring \<Rightarrow> bool" where
  "pat_word w s = (case lit_ci w (skip_ws s) of Some t \<Rightarrow> list_all is_space t | None \<Rightarrow> False)"

definition suffixPatterns :: "(jsstring \<Rightarrow> bool) list" where
  "suffixPatterns =
     [pat_dash_size, pat_paren, pat_size, pat_bare_root, pat_potted,
      pat_word (str ''tree''), pat_word (str ''shrub''), pat_word (str ''plant'')]"

text \<open>The first statement of \<open>extractPlantName\<close>: lower case, glyphs out, runs collapsed, trimmed.\<close>

definition cleanTitle :: "jsstring \<Rightarrow> jsstring" where
  "cleanTitle title = trim (collapse_ws (filter (\<lambda>c. \<not> is_glyph c) (toLowerCase title)))"

definition extractPlantName :: "jsstring \<Rightarrow> jsstring" where
  "extractPlantName title =
     trim (foldl (\<lambda>s pattern. replace_to_end pattern s) (cleanTitle title) suffixPatterns)"

section \<open>Zone lists of a product\<close>

text \<open>
  \<open>existingZones\<close> is the parsed JSON of the metafield: \<open>null\<close> or an array. An element
  is a string or something else (a number, \<open>null\<close>, a nested value); the scripts tell
  the two apart with \<open>typeof z === 'string'\<close>.
\<close>

datatype jsval = JString jsstring | JOther

datatype js_error = TypeError

text \<open>
  \<open>normalizeZoneFormat\<close>. The callback calls \<open>zone.toLowerCase()\<close>, which throws a
  \<open>TypeError\<close> on an element that is not a string; \<open>map\<close> then throws as a whole.
\<close>

definition normalizeZone :: "jsstring \<Rightarrow> jsstring" where
  "normalizeZone z =
     trim (replace_first (str '' '') []
       (replace_first (str ''-'') []
         (replace_first (str ''zone'') [] (toLowerCase z))))"

fun normalizeZoneFormat :: "jsval list \<Rightarrow> js_error + jsstring list" where
  "normalizeZoneFormat [] = Inr []"
| "normalizeZoneFormat (JOther # zs) = Inl TypeError"
| "normalizeZoneFormat (JString z # zs) =
     (case normalizeZoneFormat zs of
        Inl e \<Rightarrow> Inl e
      | Inr r \<Rightarrow> Inr (normalizeZone z # r))"

definition has_zone_word :: "jsval \<Rightarrow> bool" where
  "has_zone_word z =
     (case z of JString s \<Rightarrow> js_includes (toLowerCase s) (str ''zone'') | JOther \<Rightarrow> False)"

definition needsNormalization :: "jsval list \<Rightarrow> bool" where
  "needsNormalization zones = list_ex has_zone_word zones"

text \<open>\<open>analyzeZoneFormat\<close> of the audit script; its four string results are the constructors.\<close>

datatype zone_format = Format_none | Format_old | Format_new | Format_mixed

definition lacks_zone_word :: "jsval \<Rightarrow> bool" where
  "lacks_zone_word z =
     (case z of JString s \<Rightarrow> \<not> js_includes (toLowerCase s) (str ''zone'') | JOther \<Rightarrow> False)"

definition analyzeZoneFormat :: "jsval list option \<Rightarrow> zone_format" where
  "analyzeZoneFormat zones =
     (case zones of
        None \<Rightarrow> Format_none
      | Some zs \<Rightarrow>
          if length zs = 0 then Format_none
          else let hasOldFormat = list_ex has_zone_word zs;
                   hasNewFormat = list_ex lacks_zone_word zs
               in if hasOldFormat \<and> hasNewFormat then Format_mixed
                  else if hasOldFormat then Format_old
                  else Format_new)"

section \<open>Plant name matcher\<close>

text \<open>
  \<open>plantDatabase.plants\<close> is the object parsed from \<open>plant-zones.json\<close>, which is not part
  of the sources; it is a parameter: the list of its own keys, in the order of
  \<open>Object.keys\<close>, each with the \<open>zones\<close> array of its entry.

  A property read \<open>plants[name]\<close> finds an own key first and then the properties that
  every object inherits from \<open>Object.prototype\<close>. The inherited values are functions
  (and, for \<open>__proto__\<close>, the prototype object): all truthy, none with a \<open>zones\<close>
  property.
\<close>

type_synonym plant_db = "(jsstring \<times> jsstring list) list"

definition object_prototype_keys :: "jsstring list" where
  "object_prototype_keys = map str
     [''constructor'', ''__defineGetter__'', ''__defineSetter__'', ''hasOwnProperty'',
      ''__lookupGetter__'', ''__lookupSetter__'', ''isPrototypeOf'', ''propertyIsEnumerable'',
      ''toString'', ''valueOf'', ''__proto__'', ''toLocaleString'']"

datatype 'v property = Own 'v | Inherited

definition get_property :: "(jsstring \<times> 'v) list \<Rightarrow> jsstring \<Rightarrow> 'v property option" where
  "get_property obj name =
     (case map_of obj name of
        Some v \<Rightarrow> Some (Own v)
      | None \<Rightarrow> if name \<in> set object_prototype_keys then Some Inherited else None)"

datatype match_type = Exact | Contains | Partial | Botanical

text \<open>The result object; \<open>zones = None\<close> is a \<open>zones\<close> field holding \<open>undefined\<close>.\<close>

record match_result =
  zones :: "jsstring list option"
  matchType :: match_type
  matchedKey :: "jsstring option"
  matchedWord :: "jsstring option"

definition botanicalTerms :: "jsstring list" where
  "botanicalTerms = map str
     [
      ''magnolia'', ''maple'', ''oak'', ''pine'', ''spruce'', ''cedar'', ''cypress'',
      ''arborvitae'', ''dogwood'', ''redbud'', ''cherry'', ''crape'', ''crepe'', ''myrtle'',
      ''birch'', ''willow'', ''elm'', ''ash'', ''tulip'', ''ginkgo'', ''sweetgum'',
      ''sycamore'', ''locust'', ''beech'', ''hickory'', ''walnut'', ''chestnut'', ''hazelnut'',
      ''catalpa'', ''boxwood'', ''holly'', ''privet'', ''hydrangea'', ''lilac'', ''azalea'',
      ''rhododendron'', ''camellia'', ''gardenia'', ''forsythia'', ''hibiscus'', ''butterfly'',
      ''spirea'', ''viburnum'', ''barberry'', ''weigela'', ''ninebark'', ''juniper'', ''yew'',
      ''hemlock'', ''fir'', ''palm'', ''serviceberry'', ''fringe'', ''blueberry'',
      ''elderberry'', ''beautyberry'', ''clethra'', ''photinia'', ''nandina'', ''loropetalum'',
      ''laurel'', ''pieris'', ''leucothoe'', ''aucuba'', ''osmanthus'', ''fatsia'',
      ''podocarpus'', ''deutzia'', ''kerria'', ''potentilla'', ''cotoneaster'', ''abelia'',
      ''sweetspire'', ''fothergilla'', ''snowberry'', ''coralberry'', ''jasmine'', ''lantana'',
      ''muhly'', ''mondo'', ''liriope'', ''daylily'', ''oleander'', ''mahonia'',
      ''pittosporum'', ''distylium'', ''guava'', ''yucca'', ''ligustrum'', ''dianella'',
      ''agapanthus'', ''sage'']"

text \<open>\<open>[...plantKeys].sort((a, b) => b.length - a.length)\<close>: a stable sort, longest key first.\<close>

definition sortedByLength :: "plant_db \<Rightarrow> jsstring list" where
  "sortedByLength plants = sort_key (\<lambda>k. - int (length k)) (map fst plants)"

text \<open>The last loop of \<open>lookupZones\<close>, over the words of the name that are longer than 4.\<close>

fun botanical_scan :: "plant_db \<Rightarrow> jsstring list \<Rightarrow> match_result option" where
  "botanical_scan plants [] = None"
| "botanical_scan plants (word # ws) =
     (if word \<in> set botanicalTerms
      then (case find (\<lambda>key. js_includes key word) (sortedByLength plants) of
              Some key \<Rightarrow>
                Some \<lparr>zones = map_of plants key, matchType = Botanical,
                      matchedKey = Some key, matchedWord = Some word\<rparr>
            | None \<Rightarrow> botanical_scan plants ws)
      else botanical_scan plants ws)"

definition lookupZones :: "plant_db \<Rightarrow> jsstring \<Rightarrow> match_result option" where
  "lookupZones plants plantName =
     (case get_property plants plantName of
        Some p \<Rightarrow>
          Some \<lparr>zones = (case p of Own zs \<Rightarrow> Some zs | Inherited \<Rightarrow> None), matchType = Exact,
                matchedKey = None, matchedWord = None\<rparr>
      | None \<Rightarrow>
          (case find (\<lambda>key. js_includes plantName key \<and> 5 \<le> length key) (sortedByLength plants) of
             Some key \<Rightarrow>
               Some \<lparr>zones = map_of plants key, matchType = Contains,
                     matchedKey = Some key, matchedWord = None\<rparr>
           | None \<Rightarrow>
               (case find (\<lambda>key. js_includes key plantName \<and> 6 \<le> length plantName) (map fst plants) of
                  Some key \<Rightarrow>
                    Some \<lparr>zones = map_of plants key, matchType = Partial,
                          matchedKey = Some key, matchedWord = None\<rparr>
                | None \<Rightarrow>
                    botanical_scan plants
                      (filter (\<lambda>w. 4 < length w) (split_on 32 plantName)))))"

section \<open>The claims of the specification in its own words\<close>

text \<open>
  "That element lowercased with the word zone, hyphens, and spaces stripped": every
  occurrence removed, read from left to right.
\<close>

function remove_all :: "jsstring \<Rightarrow> jsstring \<Rightarrow> jsstring" where
  "remove_all p [] = []"
| "remove_all p (c # cs) =
     (if p \<noteq> [] \<and> starts_with p (c # cs) then remove_all p (drop (length p) (c # cs))
      else c # remove_all p cs)"
  by pat_completeness auto
termination
  by (relation "measure (\<lambda>(p, s). length s)") auto

definition spec_normalizeZone :: "jsstring \<Rightarrow> jsstring" where
  "spec_normalizeZone z =
     filter (\<lambda>c. c \<noteq> 45 \<and> c \<noteq> 32) (remove_all (str ''zone'') (toLowerCase z))"

text \<open>
  "Contains the pattern case-insensitively": at some index the string continues with the
  letters of the pattern, each in either case.
\<close>

definition contains_ci :: "jsstring \<Rightarrow> jsstring \<Rightarrow> bool" where
  "contains_ci p s =
     list_ex (\<lambda>i. i + length p \<le> length s \<and> list_all2 ci_eq p (take (length p) (drop i s)))
       [0..<Suc (length s)]"

text \<open>
  "The legacy zone-N format": the element is, in some mix of cases, \<open>zone-\<close> followed by
  a zone designation \<open>N\<close>, or \<open>N\<close> alone, where a zone designation has no white space,
  no hyphen and not the word itself.
\<close>

definition zone_N_form :: "jsstring \<Rightarrow> bool" where
  "zone_N_form z =
     (let l = toLowerCase z;
          n = (if starts_with (str ''zone-'') l then drop 5 l else l)
      in \<not> js_includes n (str ''zone'') \<and> 45 \<notin> set n \<and> \<not> list_ex is_space n)"

section \<open>Auxiliary notions for the proofs\<close>

text \<open>The zone codes that occur as values of \<open>ZONE_DATA.zipToZone\<close>.\<close>

definition used_codes :: "string list" where
  "used_codes =
     [''4b'', ''5a'', ''5b'', ''6a'', ''6b'', ''7a'', ''7b'', ''8a'', ''8b'', ''9a'', ''9b'', ''10a'', ''10b'']"


text \<open>
  On Basic Latin and Latin-1 the lower-case mapping is this function of the code unit.
\<close>

definition latin1_lower :: "nat \<Rightarrow> nat" where
  "latin1_lower c =
     (if (65 \<le> c \<and> c \<le> 90) \<or> (192 \<le> c \<and> c \<le> 222 \<and> c \<noteq> 215) then c + 32 else c)"

text \<open>
  A plain code unit: of Basic Latin or Latin-1, or a character of the Basic Multilingual
  Plane without a lower-case mapping (no surrogate, and not a capital letter of another
  script). A plain title is made of plain code units.
\<close>

definition plain_unit :: "nat \<Rightarrow> bool" where
  "plain_unit c =
     (c \<le> 255 \<or>
      (c < 65536 \<and> \<not> is_high c \<and> \<not> is_low c \<and> c \<noteq> 304 \<and> simple_lower c = c))"


text \<open>The letters of the word "zone".\<close>

definition zone_letter :: "nat \<Rightarrow> bool" where
  "zone_letter u = (u = 122 \<or> u = 111 \<or> u = 110 \<or> u = 101)"

text \<open>
  What one code point contributes to the lower-cased string, the lower-cased rest of a
  string, and a pattern at the start of a string in some mix of cases.
\<close>

definition lower_block :: "nat list \<Rightarrow> nat \<Rightarrow> nat list \<Rightarrow> jsstring" where
  "lower_block before c after =
     concat (map utf16
       (if c = 931 then [if final_sigma before after then 962 else 963]
        else if c = 304 then [105, 775]
        else [simple_lower c]))"

definition lowered :: "nat list \<Rightarrow> nat list \<Rightarrow> jsstring" where
  "lowered before cps = concat (map utf16 (lower_cps before cps))"

definition starts_ci :: "jsstring \<Rightarrow> jsstring \<Rightarrow> bool" where
  "starts_ci p s = (length p \<le> length s \<and> list_all2 ci_eq p (take (length p) s))"

text \<open>A small plant database for the concrete instances below.\<close>

definition example_plants :: plant_db where
  "example_plants =
     [(str ''maple'', map str [''3'', ''4'', ''5'', ''6'', ''7'', ''8'', ''9'']),
      (str ''japanese maple'', map str [''5'', ''6'', ''7'', ''8'']),
      (str ''white oak'', map str [''3'', ''4'', ''5'', ''6'', ''7'', ''8'', ''9'']),
      (str ''southern magnolia'', map str [''7'', ''8'', ''9''])]"

section \<open>Facts about strings and the tables\<close>

lemma inj_str: "inj str"
  unfolding str_def by (simp add: inj_on_def)

lemma str_eq_iff: "str a = str b \<longleftrightarrow> a = b"
  using inj_str by (auto dest: injD)

lemma str_empty_iff: "str a = [] \<longleftrightarrow> a = []"
  by (simp add: str_def)

lemma map_of_str:
  "map_of (map (\<lambda>(k, v). (str k, f v)) xs) (str k) = map_option f (map_of xs k)"
  by (induction xs) (auto simp: str_eq_iff)

lemma substring_prefix: "substring s 0 n = take n s"
  by (simp add: substring_def Let_def min_def)

text \<open>No property name of \<open>Object.prototype\<close> fits into a three-unit prefix.\<close>

lemma object_prototype_keys_long: "\<forall>name \<in> set object_prototype_keys. 3 < length name"
  by (simp add: object_prototype_keys_def str_def)

lemma zones_of_used_codes:
  "\<forall>c \<in> set used_codes. c \<noteq> [] \<and> (\<exists>r. map_of ZONE_DATA_zones_entries c = Some r)"
  by (simp add: used_codes_def ZONE_DATA_zones_entries_def)

lemma zipToZone_codes: "set (map snd ZONE_DATA_zipToZone_entries) \<subseteq> set used_codes"
proof -
  have "set (map snd zipToZone_northeast) \<subseteq> set used_codes"
    by (simp add: zipToZone_northeast_def used_codes_def)
  moreover have "set (map snd zipToZone_new_york) \<subseteq> set used_codes"
    by (simp add: zipToZone_new_york_def used_codes_def)
  moreover have "set (map snd zipToZone_mid_atlantic) \<subseteq> set used_codes"
    by (simp add: zipToZone_mid_atlantic_def used_codes_def)
  moreover have "set (map snd zipToZone_dc_maryland_virginia) \<subseteq> set used_codes"
    by (simp add: zipToZone_dc_maryland_virginia_def used_codes_def)
  moreover have "set (map snd zipToZone_north_carolina) \<subseteq> set used_codes"
    by (simp add: zipToZone_north_carolina_def used_codes_def)
  moreover have "set (map snd zipToZone_south_carolina) \<subseteq> set used_codes"
    by (simp add: zipToZone_south_carolina_def used_codes_def)
  moreover have "set (map snd zipToZone_georgia) \<subseteq> set used_codes"
    by (simp add: zipToZone_georgia_def used_codes_def)
  moreover have "set (map snd zipToZone_florida) \<subseteq> set used_codes"
    by (simp add: zipToZone_florida_def used_codes_def)
  moreover have "set (map snd zipToZone_ohio) \<subseteq> set used_codes"
    by (simp add: zipToZone_ohio_def used_codes_def)
  moreover have "set (map snd zipToZone_michigan) \<subseteq> set used_codes"
    by (simp add: zipToZone_michigan_def used_codes_def)
  moreover have "set (map snd zipToZone_illinois) \<subseteq> set used_codes"
    by (simp add: zipToZone_illinois_def used_codes_def)
  moreover have "set (map snd zipToZone_texas) \<subseteq> set used_codes"
    by (simp add: zipToZone_texas_def used_codes_def)
  moreover have "set (map snd zipToZone_california) \<subseteq> set used_codes"
    by (simp add: zipToZone_california_def used_codes_def)
  moreover have "set (map snd zipToZone_washington) \<subseteq> set used_codes"
    by (simp add: zipToZone_washington_def used_codes_def)
  moreover have "set (map snd zipToZone_oregon) \<subseteq> set used_codes"
    by (simp add: zipToZone_oregon_def used_codes_def)
  moreover have "set (map snd zipToZone_colorado) \<subseteq> set used_codes"
    by (simp add: zipToZone_colorado_def used_codes_def)
  moreover have "set (map snd zipToZone_arizona) \<subseteq> set used_codes"
    by (simp add: zipToZone_arizona_def used_codes_def)
  ultimately show ?thesis
    unfolding ZONE_DATA_zipToZone_entries_def by simp
qed

text \<open>Every zone code of the prefix table is a non-empty string and has a temperature range.\<close>

lemma zipToZone_value:
  assumes "ZONE_DATA_zipToZone p = Some c"
  shows "truthy c \<and> (\<exists>r. ZONE_DATA_zones c = Some r)"
proof -
  from assms have "(p, c) \<in> set (map (\<lambda>(k, v). (str k, str v)) ZONE_DATA_zipToZone_entries)"
    unfolding ZONE_DATA_zipToZone_def by (rule map_of_SomeD)
  then obtain k v where kv: "(k, v) \<in> set ZONE_DATA_zipToZone_entries" and c: "c = str v"
    by auto
  from kv have "v \<in> set (map snd ZONE_DATA_zipToZone_entries)"
    by force
  with zipToZone_codes have v: "v \<in> set used_codes" by blast
  with zones_of_used_codes obtain r
    where "v \<noteq> []" and "map_of ZONE_DATA_zones_entries v = Some r"
    by blast
  then show ?thesis
    unfolding c ZONE_DATA_zones_def truthy_def
    by (simp add: map_of_str str_empty_iff)
qed

lemma zipToZone_010: "ZONE_DATA_zipToZone (str ''010'') = Some (str ''5b'')"
  unfolding ZONE_DATA_zipToZone_def map_of_str
  by (simp add: ZONE_DATA_zipToZone_entries_def zipToZone_northeast_def)

section \<open>Zone resolver: the claims\<close>

text \<open>
  C1. Two ZIP strings with the same first three characters get the same answer from
  \<open>getZoneFromZip\<close> and, against any one lookup table, from \<open>getZoneFromLookup\<close>; the
  answer of \<open>getZoneFromZip\<close> is either null for both or the zone code of the prefix
  together with that zone's temperature range. The table is a constant (or the table
  argument), so the answer is a function of the prefix and the table alone. Nothing is
  asked of the strings beyond the equal prefix, so 5-digit numeric ZIPs are covered.
\<close>

theorem resolveZone_prefix_only:
  assumes "substring z1 0 3 = substring z2 0 3"
  shows "getZoneFromZip z1 = getZoneFromZip z2 \<and>
         getZoneFromLookup lookupTable z1 = getZoneFromLookup lookupTable z2 \<and>
         (getZoneFromZip z1 = None \<or>
          (\<exists>code range. ZONE_DATA_zipToZone (substring z1 0 3) = Some code \<and>
              ZONE_DATA_zones code = Some range \<and>
              getZoneFromZip z1 = Some \<lparr>zone = code, spread = Some range\<rparr>))"
proof -
  have same: "getZoneFromZip z1 = getZoneFromZip z2"
    using assms by (simp add: getZoneFromZip_def)
  have look: "getZoneFromLookup lookupTable z1 = getZoneFromLookup lookupTable z2"
    using assms by (simp add: getZoneFromLookup_def)
  have shape: "getZoneFromZip z1 = None \<or>
          (\<exists>code range. ZONE_DATA_zipToZone (substring z1 0 3) = Some code \<and>
              ZONE_DATA_zones code = Some range \<and>
              getZoneFromZip z1 = Some \<lparr>zone = code, spread = Some range\<rparr>)"
  proof (cases "ZONE_DATA_zipToZone (substring z1 0 3)")
    case None
    then show ?thesis by (simp add: getZoneFromZip_def)
  next
    case (Some c)
    with zipToZone_value [OF Some] show ?thesis
      by (auto simp: getZoneFromZip_def)
  qed
  from same look shape show ?thesis by blast
qed

theorem resolveZone_prefix_only_witness:
  "substring (str ''01001'') 0 3 = substring (str ''01099'') 0 3 \<and>
   getZoneFromZip (str ''01001'') = getZoneFromZip (str ''01099'') \<and>
   getZoneFromLookup [str ''010'' \<mapsto> str ''6a''] (str ''01001'') =
     getZoneFromLookup [str ''010'' \<mapsto> str ''6a''] (str ''01099'') \<and>
   getZoneFromZip (str ''01001'') \<noteq> None"
proof -
  have h: "substring (str ''01001'') 0 3 = substring (str ''01099'') 0 3"
    by (simp add: substring_prefix str_def)
  have pre: "substring (str ''01001'') 0 3 = str ''010''"
    by (simp add: substring_prefix str_def)
  have "getZoneFromZip (str ''01001'') \<noteq> None"
    using zipToZone_010 by (simp add: getZoneFromZip_def pre truthy_def str_empty_iff)
  with h resolveZone_prefix_only [OF h, of "[str ''010'' \<mapsto> str ''6a'']"] show ?thesis
    by blast
qed

text \<open>
  C7. \<open>getZoneFromZip\<close> returns null exactly when the prefix of the ZIP is not a key of
  the prefix table; so does \<open>getZoneFromLookup\<close> against every table whose zone codes
  are non-empty strings, as those of a zone table are. Neither function has an error
  result: both are total and return a zone or null.
\<close>

theorem resolveZone_null_iff_absent:
  "(getZoneFromZip zipCode = None \<longleftrightarrow> substring zipCode 0 3 \<notin> dom ZONE_DATA_zipToZone) \<and>
   ((\<forall>c \<in> ran lookupTable. truthy c) \<longrightarrow>
      (getZoneFromLookup lookupTable zipCode = None \<longleftrightarrow> substring zipCode 0 3 \<notin> dom lookupTable))"
proof -
  have zip: "getZoneFromZip zipCode = None \<longleftrightarrow> substring zipCode 0 3 \<notin> dom ZONE_DATA_zipToZone"
  proof (cases "ZONE_DATA_zipToZone (substring zipCode 0 3)")
    case None
    then show ?thesis by (simp add: getZoneFromZip_def domIff)
  next
    case (Some c)
    with zipToZone_value [OF Some] show ?thesis
      by (simp add: getZoneFromZip_def domIff)
  qed
  have look: "getZoneFromLookup lookupTable zipCode = None \<longleftrightarrow> substring zipCode 0 3 \<notin> dom lookupTable"
    if ok: "\<forall>c \<in> ran lookupTable. truthy c"
  proof (cases "lookupTable (substring zipCode 0 3)")
    case None
    then show ?thesis by (simp add: getZoneFromLookup_def domIff)
  next
    case (Some c)
    then have "c \<in> ran lookupTable" by (auto simp: ran_def)
    with ok have "truthy c" by blast
    with Some show ?thesis by (simp add: getZoneFromLookup_def domIff)
  qed
  from zip look show ?thesis by blast
qed

theorem resolveZone_null_iff_absent_witness:
  "getZoneFromLookup [str ''010'' \<mapsto> str ''6a''] (str ''00501'') = None \<and>
   substring (str ''00501'') 0 3 \<notin> dom [str ''010'' \<mapsto> str ''6a''] \<and>
   getZoneFromLookup [str ''010'' \<mapsto> str ''6a''] (str ''01001'') \<noteq> None \<and>
   getZoneFromZip (str ''01001'') \<noteq> None"
proof -
  have h: "\<forall>c \<in> ran [str ''010'' \<mapsto> str ''6a'']. truthy c"
    by (simp add: truthy_def str_def)
  have a: "substring (str ''00501'') 0 3 \<notin> dom [str ''010'' \<mapsto> str ''6a'']"
    by (simp add: substring_prefix str_def)
  have b: "substring (str ''01001'') 0 3 \<in> dom [str ''010'' \<mapsto> str ''6a'']"
    by (simp add: substring_prefix str_def)
  have c: "substring (str ''01001'') 0 3 \<in> dom ZONE_DATA_zipToZone"
    using zipToZone_010 by (simp add: substring_prefix str_def domIff)
  from h a resolveZone_null_iff_absent [of "str ''00501''" "[str ''010'' \<mapsto> str ''6a'']"]
  have "getZoneFromLookup [str ''010'' \<mapsto> str ''6a''] (str ''00501'') = None"
    by blast
  moreover from h b c resolveZone_null_iff_absent [of "str ''01001''" "[str ''010'' \<mapsto> str ''6a'']"]
  have "getZoneFromLookup [str ''010'' \<mapsto> str ''6a''] (str ''01001'') \<noteq> None \<and>
        getZoneFromZip (str ''01001'') \<noteq> None"
    by blast
  ultimately show ?thesis using a by blast
qed

text \<open>
  C9. The two copies of the prefix table disagree: prefix 750 is a key of both, with zone
  8a in the widget's table and zone 8b in the entries of \<open>assets/zone-selector.js\<close>.
\<close>

theorem zip_tables_disagree:
  "ZONE_DATA_zipToZone (str ''750'') = Some (str ''8a'') \<and>
   asset_zipToZone (str ''750'') = Some (str ''8b'') \<and>
   str ''8a'' \<noteq> str ''8b'' \<and>
   (\<exists>p a b. ZONE_DATA_zipToZone p = Some a \<and> asset_zipToZone p = Some b \<and> a \<noteq> b)"
proof -
  have n0: "map_of zipToZone_northeast ''750'' = None"
    by (simp add: zipToZone_northeast_def)
  have n1: "map_of zipToZone_new_york ''750'' = None"
    by (simp add: zipToZone_new_york_def)
  have n2: "map_of zipToZone_mid_atlantic ''750'' = None"
    by (simp add: zipToZone_mid_atlantic_def)
  have n3: "map_of zipToZone_dc_maryland_virginia ''750'' = None"
    by (simp add: zipToZone_dc_maryland_virginia_def)
  have n4: "map_of zipToZone_north_carolina ''750'' = None"
    by (simp add: zipToZone_north_carolina_def)
  have n5: "map_of zipToZone_south_carolina ''750'' = None"
    by (simp add: zipToZone_south_carolina_def)
  have n6: "map_of zipToZone_georgia ''750'' = None"
    by (simp add: zipToZone_georgia_def)
  have n7: "map_of zipToZone_florida ''750'' = None"
    by (simp add: zipToZone_florida_def)
  have n8: "map_of zipToZone_ohio ''750'' = None"
    by (simp add: zipToZone_ohio_def)
  have n9: "map_of zipToZone_michigan ''750'' = None"
    by (simp add: zipToZone_michigan_def)
  have n10: "map_of zipToZone_illinois ''750'' = None"
    by (simp add: zipToZone_illinois_def)
  have tx: "map_of zipToZone_texas ''750'' = Some ''8a''"
    by (simp add: zipToZone_texas_def)
  have "map_of ZONE_DATA_zipToZone_entries ''750'' = Some ''8a''"
    unfolding ZONE_DATA_zipToZone_entries_def map_of_append map_add_def
    by (simp add: tx n0 n1 n2 n3 n4 n5 n6 n7 n8 n9 n10)
  then have a: "ZONE_DATA_zipToZone (str ''750'') = Some (str ''8a'')"
    unfolding ZONE_DATA_zipToZone_def map_of_str by simp
  have "map_of asset_zipToZone_entries ''750'' = Some ''8b''"
    by (simp add: asset_zipToZone_entries_def)
  then have b: "asset_zipToZone (str ''750'') = Some (str ''8b'')"
    unfolding asset_zipToZone_def map_of_str by simp
  have c: "str ''8a'' \<noteq> str ''8b''"
    by (simp add: str_eq_iff)
  from a b c show ?thesis by blast
qed

section \<open>Facts about lower-casing\<close>

lemma find_append_None: "find P ys = None \<Longrightarrow> find P (xs @ ys) = find P xs"
  by (induction xs) auto

lemma lower_rules_bmp_above: "list_all (\<lambda>(lo, hi, step, img). 255 < lo) lower_rules_bmp"
  by (simp add: lower_rules_bmp_def)

lemma lower_rules_astral_above: "list_all (\<lambda>(lo, hi, step, img). 255 < lo) lower_rules_astral"
  by (simp add: lower_rules_astral_def)

lemma find_rule_above:
  assumes "list_all (\<lambda>(lo, hi, step, img). 255 < lo) rs" and "c \<le> 255"
  shows "find (rule_applies c) rs = None"
  using assms by (induction rs) (auto simp: rule_applies_def)

text \<open>On Basic Latin and Latin-1 the table is \<open>latin1_lower\<close>.\<close>

lemma simple_lower_latin1:
  assumes "c \<le> 255"
  shows "simple_lower c = latin1_lower c"
proof -
  have "find (rule_applies c) (lower_rules_bmp @ lower_rules_astral) = None"
    using assms lower_rules_bmp_above lower_rules_astral_above
    by (intro find_rule_above) simp_all
  then have "find (rule_applies c) (lower_rules_latin1 @ lower_rules_bmp @ lower_rules_astral) =
      find (rule_applies c) lower_rules_latin1"
    by (rule find_append_None)
  then show ?thesis
    using assms
    by (auto simp: simple_lower_def lower_rules_latin1_def rule_applies_def latin1_lower_def)
qed

text \<open>
  Beyond Basic Latin no code point is mapped to one of the letters z, o, n, e: every run
  outside Latin-1 has its images above U+007A, but for the Kelvin sign, which becomes k.
\<close>

lemma lower_rules_bmp_images:
  "list_all (\<lambda>(lo, hi, step, img). 122 < img \<or> (lo = hi \<and> \<not> zone_letter img)) lower_rules_bmp"
  by (simp add: lower_rules_bmp_def zone_letter_def)

lemma lower_rules_astral_images:
  "list_all (\<lambda>(lo, hi, step, img). 122 < img \<or> (lo = hi \<and> \<not> zone_letter img)) lower_rules_astral"
  by (simp add: lower_rules_astral_def zone_letter_def)

lemma lower_rules_latin1_images:
  "list_all (\<lambda>(lo, hi, step, img). 128 \<le> lo \<longrightarrow> 122 < img) lower_rules_latin1"
  by (simp add: lower_rules_latin1_def)

lemma find_Some_set: "find P xs = Some x \<Longrightarrow> x \<in> set xs \<and> P x"
  by (induction xs) (auto split: if_splits)

lemma simple_lower_no_zone_letter:
  assumes "128 \<le> c"
  shows "\<not> zone_letter (simple_lower c)"
proof (cases "find (rule_applies c) (lower_rules_latin1 @ lower_rules_bmp @ lower_rules_astral)")
  case None
  with assms show ?thesis by (simp add: simple_lower_def zone_letter_def)
next
  case (Some r)
  obtain lo hi step img where r: "r = (lo, hi, step, img)" by (cases r) auto
  from Some have mem: "r \<in> set lower_rules_latin1 \<or> r \<in> set lower_rules_bmp \<or> r \<in> set lower_rules_astral"
    and app: "rule_applies c r"
    by (auto dest: find_Some_set)
  from app r have range: "lo \<le> c" "c \<le> hi" by (auto simp: rule_applies_def)
  have "122 < img \<or> (lo = hi \<and> \<not> zone_letter img)"
  proof -
    from mem consider "r \<in> set lower_rules_latin1" | "r \<in> set lower_rules_bmp" | "r \<in> set lower_rules_astral"
      by blast
    then show ?thesis
    proof cases
      case 1
      with r range assms show ?thesis
        by (auto simp: lower_rules_latin1_def)
    next
      case 2
      with lower_rules_bmp_images r show ?thesis
        by (auto simp: list_all_iff)
    next
      case 3
      with lower_rules_astral_images r show ?thesis
        by (auto simp: list_all_iff)
    qed
  qed
  moreover from Some r have "simple_lower c = img + (c - lo)"
    by (simp add: simple_lower_def)
  ultimately show ?thesis
    using range by (auto simp: zone_letter_def)
qed

lemma lowered_Nil: "lowered before [] = []"
  by (simp add: lowered_def)

lemma lowered_Cons: "lowered before (c # after) = lower_block before c after @ lowered (c # before) after"
  by (simp add: lowered_def lower_block_def)

lemma utf16_no_zone_letter:
  assumes "\<not> zone_letter x"
  shows "\<forall>u \<in> set (utf16 x). \<not> zone_letter u"
  using assms by (auto simp: utf16_def zone_letter_def)

lemma lower_block_basic_latin:
  assumes "c < 128"
  shows "lower_block before c after = [latin1_lower c]"
proof -
  from assms have "simple_lower c = latin1_lower c"
    by (intro simple_lower_latin1) simp
  moreover from assms have "latin1_lower c < 65536"
    by (simp add: latin1_lower_def)
  ultimately show ?thesis
    using assms by (simp add: lower_block_def utf16_def)
qed

lemma lower_block_opaque:
  assumes "128 \<le> c"
  shows "lower_block before c after \<noteq> [] \<and> (\<forall>u \<in> set (lower_block before c after). \<not> zone_letter u)"
proof -
  have ne: "utf16 x \<noteq> []" for x by (simp add: utf16_def)
  consider "c = 931" | "c = 304" | "c \<noteq> 931" "c \<noteq> 304" by blast
  then show ?thesis
  proof cases
    case 1
    have "\<not> zone_letter 962" "\<not> zone_letter 963" by (simp_all add: zone_letter_def)
    with 1 ne show ?thesis
      by (auto simp: lower_block_def dest: utf16_no_zone_letter [rule_format, rotated])
  next
    case 2
    then show ?thesis
      by (simp add: lower_block_def utf16_def zone_letter_def)
  next
    case 3
    from assms have "\<not> zone_letter (simple_lower c)"
      by (rule simple_lower_no_zone_letter)
    with 3 ne utf16_no_zone_letter show ?thesis
      by (simp add: lower_block_def)
  qed
qed

text \<open>Matching a pattern of the letters z, o, n, e at the front, and anywhere.\<close>

lemma starts_with_Cons: "starts_with (a # q) (x # s) \<longleftrightarrow> a = x \<and> starts_with q s"
  by (auto simp: starts_with_def)

lemma starts_with_Nil: "starts_with [] s" "starts_with (a # q) [] = False"
  by (simp_all add: starts_with_def)

lemma starts_ci_Cons: "starts_ci (a # q) (x # s) \<longleftrightarrow> ci_eq a x \<and> starts_ci q s"
  by (auto simp: starts_ci_def)

lemma starts_ci_Nil: "starts_ci [] s" "starts_ci (a # q) [] = False"
  by (simp_all add: starts_ci_def)

lemma ci_eq_letter_high: "zone_letter a \<Longrightarrow> 128 \<le> x \<Longrightarrow> \<not> ci_eq a x"
  by (auto simp: zone_letter_def ci_eq_def)

lemma latin1_lower_zone_letter:
  "zone_letter a \<Longrightarrow> a = latin1_lower x \<longleftrightarrow> ci_eq a x"
  by (auto simp: zone_letter_def ci_eq_def latin1_lower_def)

lemma starts_with_opaque:
  assumes "d \<noteq> []" "\<forall>u \<in> set d. \<not> zone_letter u" "zone_letter a"
  shows "\<not> starts_with (a # q) (d @ s)"
  using assms by (cases d) (auto simp: starts_with_Cons)

lemma js_includes_opaque:
  assumes "\<forall>u \<in> set d. \<not> zone_letter u" "zone_letter a"
  shows "js_includes (d @ s) (a # q) = js_includes s (a # q)"
  using assms by (induction d) (auto simp: starts_with_Cons)

lemma contains_ci_iff:
  "contains_ci p s \<longleftrightarrow>
     (\<exists>i. i + length p \<le> length s \<and> list_all2 ci_eq p (take (length p) (drop i s)))"
proof
  assume "contains_ci p s"
  then show "\<exists>i. i + length p \<le> length s \<and> list_all2 ci_eq p (take (length p) (drop i s))"
    unfolding contains_ci_def list_ex_iff by blast
next
  assume "\<exists>i. i + length p \<le> length s \<and> list_all2 ci_eq p (take (length p) (drop i s))"
  then obtain i where i: "i + length p \<le> length s"
      "list_all2 ci_eq p (take (length p) (drop i s))"
    by blast
  from i(1) have "i \<le> length s" by arith
  then have "i \<in> set [0..<Suc (length s)]" by (simp add: less_Suc_eq_le del: upt_Suc)
  with i show "contains_ci p s"
    unfolding contains_ci_def list_ex_iff by blast
qed

lemma contains_ci_starts: "contains_ci p s \<longleftrightarrow> (\<exists>i. starts_ci p (drop i s))"
proof
  assume "contains_ci p s"
  then obtain i where "i + length p \<le> length s"
      "list_all2 ci_eq p (take (length p) (drop i s))"
    unfolding contains_ci_iff by blast
  then have "starts_ci p (drop i s)" by (simp add: starts_ci_def)
  then show "\<exists>i. starts_ci p (drop i s)" ..
next
  assume "\<exists>i. starts_ci p (drop i s)"
  then obtain i where i: "length p \<le> length (drop i s)"
      "list_all2 ci_eq p (take (length p) (drop i s))"
    unfolding starts_ci_def by blast
  show "contains_ci p s"
  proof (cases "i \<le> length s")
    case True
    with i have "i + length p \<le> length s" by simp
    with i(2) show ?thesis unfolding contains_ci_iff by blast
  next
    case False
    with i(1) have "p = []" by simp
    then have "0 + length p \<le> length s \<and> list_all2 ci_eq p (take (length p) (drop 0 s))"
      by simp
    then show ?thesis unfolding contains_ci_iff by blast
  qed
qed

lemma contains_ci_Nil: "contains_ci (a # q) [] = False"
  by (simp add: contains_ci_starts starts_ci_Nil)

lemma contains_ci_Cons:
  "contains_ci p (x # s) \<longleftrightarrow> starts_ci p (x # s) \<or> contains_ci p s"
proof -
  have "(\<exists>i. starts_ci p (drop i (x # s))) \<longleftrightarrow>
      starts_ci p (drop 0 (x # s)) \<or> (\<exists>i. starts_ci p (drop (Suc i) (x # s)))"
    by (metis not0_implies_Suc)
  then show ?thesis
    unfolding contains_ci_starts by simp
qed

text \<open>
  The lower-cased string starts with, or contains, a pattern of the letters z, o, n, e
  exactly where the string itself has the pattern in either case: a code unit of Basic
  Latin becomes one code unit, and any other code point becomes code units that are none
  of these letters.
\<close>

lemma lowered_starts:
  assumes "\<forall>a \<in> set q. zone_letter a"
  shows "starts_with q (lowered before (code_points s)) \<longleftrightarrow> starts_ci q s"
  using assms
proof (induction s arbitrary: before q rule: code_points.induct)
  case (1 h l r)
  show ?case
  proof (cases q)
    case Nil
    then show ?thesis by (simp add: starts_with_Nil starts_ci_Nil)
  next
    case (Cons a q')
    with 1(3) have a: "zone_letter a" and q': "\<forall>a \<in> set q'. zone_letter a" by auto
    show ?thesis
    proof (cases "is_high h \<and> is_low l")
      case True
      let ?c = "65536 + (h - 55296) * 1024 + (l - 56320)"
      have "128 \<le> ?c" by simp
      from lower_block_opaque [OF this, of before "code_points r"] a
      have "\<not> starts_with (a # q') (lower_block before ?c (code_points r) @ lowered (?c # before) (code_points r))"
        by (intro starts_with_opaque) auto
      moreover from True have "128 \<le> h" by (simp add: is_high_def)
      with a have "\<not> starts_ci (a # q') (h # l # r)"
        by (simp add: starts_ci_Cons ci_eq_letter_high)
      ultimately show ?thesis
        using True Cons by (simp add: lowered_Cons)
    next
      case False
      then have cp: "code_points (h # l # r) = h # code_points (l # r)"
        by (simp only: code_points.simps if_False)
      from 1(2) [OF False q'] have ih:
        "starts_with q' (lowered (h # before) (code_points (l # r))) \<longleftrightarrow> starts_ci q' (l # r)" .
      show ?thesis
      proof (cases "h < 128")
        case True
        with a ih show ?thesis
          unfolding Cons cp lowered_Cons
          by (simp add: lower_block_basic_latin starts_with_Cons starts_ci_Cons latin1_lower_zone_letter)
      next
        case high: False
        then have h: "128 \<le> h" by simp
        from lower_block_opaque [OF h, of before "code_points (l # r)"] a
        have "\<not> starts_with (a # q')
            (lower_block before h (code_points (l # r)) @ lowered (h # before) (code_points (l # r)))"
          by (intro starts_with_opaque) auto
        moreover from a h have "\<not> starts_ci (a # q') (h # l # r)"
          by (simp add: starts_ci_Cons ci_eq_letter_high)
        ultimately show ?thesis
          unfolding Cons cp lowered_Cons by simp
      qed
    qed
  qed
next
  case (2 c)
  show ?case
  proof (cases q)
    case Nil
    then show ?thesis by (simp add: starts_with_Nil starts_ci_Nil)
  next
    case (Cons a q')
    with 2 have a: "zone_letter a" by auto
    show ?thesis
    proof (cases "c < 128")
      case True
      with a show ?thesis
        unfolding Cons
        by (cases q')
          (simp_all add: lowered_Cons lowered_Nil lower_block_basic_latin starts_with_Cons
            starts_ci_Cons latin1_lower_zone_letter starts_with_Nil starts_ci_Nil)
    next
      case False
      then have c: "128 \<le> c" by simp
      from lower_block_opaque [OF c, of before "[]"] a
      have "\<not> starts_with (a # q') (lower_block before c [] @ lowered (c # before) [])"
        by (intro starts_with_opaque) auto
      moreover from a c have "\<not> starts_ci (a # q') [c]"
        by (simp add: starts_ci_Cons ci_eq_letter_high)
      ultimately show ?thesis
        unfolding Cons by (simp add: lowered_Cons)
    qed
  qed
next
  case 3
  show ?case
    by (cases q) (simp_all add: lowered_Nil starts_with_Nil starts_ci_Nil)
qed

lemma lowered_includes:
  assumes a: "zone_letter a" and q: "\<forall>x \<in> set q. zone_letter x"
  shows "js_includes (lowered before (code_points s)) (a # q) \<longleftrightarrow> contains_ci (a # q) s"
proof (induction s arbitrary: before rule: code_points.induct)
  case (1 h l r)
  from a q have p: "\<forall>x \<in> set (a # q). zone_letter x" by simp
  show ?case
  proof (cases "is_high h \<and> is_low l")
    case True
    let ?c = "65536 + (h - 55296) * 1024 + (l - 56320)"
    have "128 \<le> ?c" by simp
    from lower_block_opaque [OF this, of before "code_points r"] a
    have "js_includes (lower_block before ?c (code_points r) @ lowered (?c # before) (code_points r)) (a # q)
        = js_includes (lowered (?c # before) (code_points r)) (a # q)"
      by (intro js_includes_opaque) auto
    moreover from True have "128 \<le> h" "128 \<le> l" by (simp_all add: is_high_def is_low_def)
    with a have "\<not> starts_ci (a # q) (h # l # r)" "\<not> starts_ci (a # q) (l # r)"
      by (simp_all add: starts_ci_Cons ci_eq_letter_high)
    ultimately show ?thesis
      using True 1(1) [OF True] by (simp add: lowered_Cons contains_ci_Cons)
  next
    case False
    then have cp: "code_points (h # l # r) = h # code_points (l # r)"
      by (simp only: code_points.simps if_False)
    note ih = 1(2) [OF False, of "h # before"]
    show ?thesis
    proof (cases "h < 128")
      case True
      have "starts_with (a # q) (lowered before (code_points (h # l # r))) \<longleftrightarrow>
          starts_ci (a # q) (h # l # r)"
        using p by (rule lowered_starts)
      with True ih show ?thesis
        unfolding cp lowered_Cons
        by (simp add: lower_block_basic_latin contains_ci_Cons [of _ h])
    next
      case high: False
      then have h: "128 \<le> h" by simp
      from lower_block_opaque [OF h, of before "code_points (l # r)"] a
      have "js_includes (lower_block before h (code_points (l # r)) @ lowered (h # before) (code_points (l # r))) (a # q)
          = js_includes (lowered (h # before) (code_points (l # r))) (a # q)"
        by (intro js_includes_opaque) auto
      moreover from a h have "\<not> starts_ci (a # q) (h # l # r)"
        by (simp add: starts_ci_Cons ci_eq_letter_high)
      ultimately show ?thesis
        using ih unfolding cp lowered_Cons by (simp add: contains_ci_Cons [of _ h])
    qed
  qed
next
  case (2 c)
  from a q have p: "\<forall>x \<in> set (a # q). zone_letter x" by simp
  show ?case
  proof (cases "c < 128")
    case True
    have "starts_with (a # q) (lowered before (code_points [c])) \<longleftrightarrow> starts_ci (a # q) [c]"
      using p by (rule lowered_starts)
    with True show ?thesis
      by (simp add: lowered_Cons lowered_Nil lower_block_basic_latin contains_ci_Cons contains_ci_Nil)
  next
    case False
    then have c: "128 \<le> c" by simp
    from lower_block_opaque [OF c, of before "[]"] a
    have "js_includes (lower_block before c [] @ lowered (c # before) []) (a # q)
        = js_includes (lowered (c # before) []) (a # q)"
      by (intro js_includes_opaque) auto
    moreover from a c have "\<not> starts_ci (a # q) [c]"
      by (simp add: starts_ci_Cons ci_eq_letter_high)
    ultimately show ?thesis
      by (simp add: lowered_Cons lowered_Nil contains_ci_Cons contains_ci_Nil)
  qed
next
  case 3
  show ?case by (simp add: lowered_Nil contains_ci_Nil)
qed

lemma includes_zone_ci:
  "js_includes (toLowerCase s) (str ''zone'') \<longleftrightarrow> contains_ci (str ''zone'') s"
proof -
  have "toLowerCase s = lowered [] (code_points s)"
    by (simp add: toLowerCase_def lowered_def)
  moreover have "str ''zone'' = 122 # [111, 110, 101]"
    by (simp add: str_def)
  moreover have "zone_letter 122" "\<forall>x \<in> set [111, 110, 101]. zone_letter x"
    by (simp_all add: zone_letter_def)
  ultimately show ?thesis
    by (simp only: lowered_includes)
qed

text \<open>On a string of plain code units lower-casing works unit by unit.\<close>

lemma simple_lower_sigma: "simple_lower 931 = 963"
  by (simp add: simple_lower_def rule_applies_def lower_rules_latin1_def lower_rules_bmp_def)

lemma code_points_plain: "\<forall>c \<in> set s. \<not> is_high c \<Longrightarrow> code_points s = s"
  by (induction s rule: code_points.induct) auto

lemma plain_unit_lower:
  assumes "plain_unit c"
  shows "c \<noteq> 931 \<and> c \<noteq> 304 \<and> simple_lower c = latin1_lower c \<and> latin1_lower c < 65536 \<and> \<not> is_high c"
proof (cases "c \<le> 255")
  case True
  then show ?thesis
    by (auto simp: simple_lower_latin1 latin1_lower_def is_high_def)
next
  case False
  with assms have c: "c < 65536" "\<not> is_high c" "c \<noteq> 304" "simple_lower c = c"
    by (auto simp: plain_unit_def)
  from c(4) simple_lower_sigma have "c \<noteq> 931" by auto
  moreover from False have "latin1_lower c = c" by (simp add: latin1_lower_def)
  ultimately show ?thesis using c by simp
qed

lemma lower_cps_plain: "list_all plain_unit cps \<Longrightarrow> lower_cps before cps = map latin1_lower cps"
  by (induction cps arbitrary: before) (auto dest: plain_unit_lower)

lemma concat_utf16_bmp: "\<forall>c \<in> set cps. c < 65536 \<Longrightarrow> concat (map utf16 cps) = cps"
  by (induction cps) (auto simp: utf16_def)

lemma toLowerCase_plain:
  assumes "list_all plain_unit s"
  shows "toLowerCase s = map latin1_lower s"
proof -
  from assms have "\<forall>c \<in> set s. \<not> is_high c"
    by (auto simp: list_all_iff dest: plain_unit_lower)
  then have "code_points s = s" by (rule code_points_plain)
  moreover from assms have "\<forall>c \<in> set (map latin1_lower s). c < 65536"
    by (auto simp: list_all_iff dest: plain_unit_lower)
  then have "concat (map utf16 (map latin1_lower s)) = map latin1_lower s"
    by (rule concat_utf16_bmp)
  ultimately show ?thesis
    using assms by (simp only: toLowerCase_def lower_cps_plain)
qed

lemma toLowerCase_latin1:
  assumes "list_all (\<lambda>c. c \<le> 255) s"
  shows "toLowerCase s = map latin1_lower s"
proof -
  from assms have "list_all plain_unit s"
    by (auto simp: list_all_iff plain_unit_def)
  then show ?thesis by (rule toLowerCase_plain)
qed

text \<open>The unfolding sets for evaluating the functions on concrete strings.\<close>

lemmas string_eval =
  str_def toLowerCase_latin1 latin1_lower_def is_glyph_def is_space_def is_digit_def is_dot_def
  trim_def starts_with_def

lemmas extract_eval =
  extractPlantName_def cleanTitle_def suffixPatterns_def pat_dash_size_def pat_paren_def
  pat_size_def pat_bare_root_def pat_potted_def pat_word_def skip_ws_def digits1_def
  lit_ci_def ci_eq_def unit_rest_def units_def

text \<open>
  Outside the plain titles lower-casing is not unit by unit: removing the trademark glyph
  from between two lone surrogates joins them into the Deseret capital U+10400, which the
  next call lower-cases.
\<close>

lemma simple_lower_deseret: "simple_lower 66560 = 66600"
  by (simp add: simple_lower_def rule_applies_def lower_rules_latin1_def lower_rules_bmp_def
      lower_rules_astral_def)

lemma simple_lower_caseless: "simple_lower 55297 = 55297" "simple_lower 56320 = 56320" "simple_lower 8482 = 8482"
  by (simp_all add: simple_lower_def rule_applies_def lower_rules_latin1_def lower_rules_bmp_def
      lower_rules_astral_def)

lemma extractPlantName_joins_surrogates:
  "extractPlantName [55297, 8482, 56320] = [55297, 56320] \<and>
   extractPlantName [55297, 56320] = [55297, 56360]"
  by (simp add: extract_eval toLowerCase_def utf16_def is_high_def is_low_def simple_lower_deseret
      simple_lower_caseless is_glyph_def is_space_def is_digit_def is_dot_def trim_def str_def)

text \<open>
  The conversion at some characters beyond Latin-1: O with macron, the Kelvin sign, the
  dotted capital I, a Deseret capital written as a surrogate pair, two surrogates in the
  wrong order, and the capital sigma at the end of a word, at its start, and before a
  full stop inside a word.
\<close>

lemmas lower_eval =
  toLowerCase_def utf16_def is_high_def is_low_def simple_lower_def rule_applies_def
  lower_rules_latin1_def lower_rules_bmp_def lower_rules_astral_def

lemma toLowerCase_beyond_latin1:
  "toLowerCase [332] = [333] \<and> toLowerCase [8490] = [107] \<and> toLowerCase [304] = [105, 775] \<and>
   toLowerCase [55297, 56320] = [55297, 56360] \<and> toLowerCase [56320, 55297] = [56320, 55297]"
  by (simp add: lower_eval)

lemma toLowerCase_sigma:
  "toLowerCase [927, 916, 927, 931] = [959, 948, 959, 962] \<and>
   toLowerCase [931, 927] = [963, 959] \<and> toLowerCase [65, 931, 46, 66] = [97, 963, 46, 98]"
  by (simp add: lower_eval final_sigma_def in_ranges_def cased_ranges_def case_ignorable_ranges_def)

section \<open>Plant name matcher: facts and claims\<close>

lemma find_Some_mem: "find P xs = Some x \<Longrightarrow> x \<in> set xs \<and> P x"
  by (induction xs) (auto split: if_splits)

lemma botanical_scan_Some:
  assumes "botanical_scan plants ws = Some r"
  shows "\<exists>word key. word \<in> set ws \<and> word \<in> set botanicalTerms \<and> key \<in> set (map fst plants) \<and>
           js_includes key word \<and>
           r = \<lparr>zones = map_of plants key, matchType = Botanical,
                 matchedKey = Some key, matchedWord = Some word\<rparr>"
  using assms
proof (induction ws)
  case Nil
  then show ?case by simp
next
  case (Cons w ws)
  show ?case
  proof (cases "w \<in> set botanicalTerms")
    case False
    with Cons show ?thesis by auto
  next
    case True
    show ?thesis
    proof (cases "find (\<lambda>key. js_includes key w) (sortedByLength plants)")
      case None
      with True Cons show ?thesis by auto
    next
      case (Some key)
      then have "key \<in> set (sortedByLength plants)" and "js_includes key w"
        by (auto dest: find_Some_mem)
      then have "key \<in> set (map fst plants)"
        by (simp add: sortedByLength_def)
      with True Some Cons.prems \<open>js_includes key w\<close> show ?thesis
        by auto
    qed
  qed
qed

lemma botanical_scan_None:
  assumes "\<forall>w \<in> set ws. w \<notin> set botanicalTerms"
  shows "botanical_scan plants ws = None"
  using assms by (induction ws) auto

lemma find_sorted_least:
  assumes f: "find P (sort_key f xs) = Some x" and y: "y \<in> set xs" "P y"
  shows "f x \<le> f y"
proof -
  let ?ys = "sort_key f xs"
  from f obtain i where i: "i < length ?ys" "x = ?ys ! i" "\<forall>j<i. \<not> P (?ys ! j)"
    by (auto simp: find_Some_iff)
  from y have "y \<in> set ?ys" by simp
  then obtain k where k: "k < length ?ys" "?ys ! k = y"
    by (metis in_set_conv_nth)
  with i y have ik: "i \<le> k" by (metis not_le_imp_less)
  have "sorted (map f ?ys)" by (rule sorted_sort_key)
  then have "map f ?ys ! i \<le> map f ?ys ! k"
    using ik k(1) by (intro sorted_nth_mono) simp_all
  with i k show ?thesis by simp
qed

text \<open>
  When the property read finds nothing and some key of length 5 or more occurs in the
  name, the contains tier answers with a key of greatest length among those keys.
\<close>

lemma lookupZones_contains_longest:
  assumes none: "get_property plants plantName = None"
      and ex: "\<exists>key \<in> set (map fst plants). 5 \<le> length key \<and> js_includes plantName key"
  shows "\<exists>key. lookupZones plants plantName =
             Some \<lparr>zones = map_of plants key, matchType = Contains,
                   matchedKey = Some key, matchedWord = None\<rparr> \<and>
           key \<in> set (map fst plants) \<and> 5 \<le> length key \<and> js_includes plantName key \<and>
           (\<exists>zs. map_of plants key = Some zs) \<and>
           (\<forall>other \<in> set (map fst plants).
               5 \<le> length other \<and> js_includes plantName other \<longrightarrow> length other \<le> length key)"
proof -
  let ?P = "\<lambda>key. js_includes plantName key \<and> 5 \<le> length key"
  from ex have "find ?P (sortedByLength plants) \<noteq> None"
    by (auto simp: find_None_iff sortedByLength_def)
  then obtain key where key: "find ?P (sortedByLength plants) = Some key"
    by auto
  then have P: "?P key" and mem: "key \<in> set (map fst plants)"
    by (auto dest: find_Some_mem simp: sortedByLength_def)
  from mem have zs: "\<exists>zs. map_of plants key = Some zs"
    by (metis map_of_eq_None_iff not_Some_eq set_map)
  have longest: "length other \<le> length key"
    if "other \<in> set (map fst plants)" "5 \<le> length other" "js_includes plantName other" for other
  proof -
    from key have "find ?P (sort_key (\<lambda>k. - int (length k)) (map fst plants)) = Some key"
      by (simp only: sortedByLength_def)
    from find_sorted_least [OF this that(1)] that(2,3)
    have "- int (length key) \<le> - int (length other)" by blast
    then show ?thesis by simp
  qed
  from none key have "lookupZones plants plantName =
      Some \<lparr>zones = map_of plants key, matchType = Contains, matchedKey = Some key, matchedWord = None\<rparr>"
    by (simp add: lookupZones_def)
  with P mem zs longest show ?thesis by blast
qed


lemmas lookup_eval =
  lookupZones_def get_property_def object_prototype_keys_def sortedByLength_def
  botanicalTerms_def example_plants_def


text \<open>
  The tie-break of the specification: \<open>maple\<close> and \<open>japanese maple\<close> both occur in
  \<open>red japanese maple\<close>, and the zones of the longer key are returned.
\<close>

lemma lookupZones_contains_example:
  "lookupZones example_plants (str ''red japanese maple'') =
     Some \<lparr>zones = Some (map str [''5'', ''6'', ''7'', ''8'']), matchType = Contains,
           matchedKey = Some (str ''japanese maple''), matchedWord = None\<rparr>"
  by (simp add: string_eval lookup_eval)

text \<open>
  C5. A name that is a key of the database gets that key's zones with match type exact,
  whatever the other keys are: the exact tier returns before any other tier is tried.
\<close>

theorem lookupZones_exact_precedence:
  assumes "map_of plants plantName = Some zs"
  shows "lookupZones plants plantName =
           Some \<lparr>zones = Some zs, matchType = Exact, matchedKey = None, matchedWord = None\<rparr>"
  using assms by (simp add: lookupZones_def get_property_def)

theorem lookupZones_exact_precedence_witness:
  "map_of example_plants (extractPlantName (str ''Maple Tree'')) =
     Some (map str [''3'', ''4'', ''5'', ''6'', ''7'', ''8'', ''9'']) \<and>
   js_includes (str ''japanese maple'') (extractPlantName (str ''Maple Tree'')) \<and>
   length (extractPlantName (str ''Maple Tree'')) < length (str ''japanese maple'') \<and>
   lookupZones example_plants (extractPlantName (str ''Maple Tree'')) =
     Some \<lparr>zones = Some (map str [''3'', ''4'', ''5'', ''6'', ''7'', ''8'', ''9'']),
           matchType = Exact, matchedKey = None, matchedWord = None\<rparr>"
proof -
  have name: "extractPlantName (str ''Maple Tree'') = str ''maple''"
    by (simp add: string_eval extract_eval)
  have key: "map_of example_plants (str ''maple'') =
      Some (map str [''3'', ''4'', ''5'', ''6'', ''7'', ''8'', ''9''])"
    by (simp add: example_plants_def str_def)
  have longer: "js_includes (str ''japanese maple'') (str ''maple'') \<and>
      length (str ''maple'') < length (str ''japanese maple'')"
    by (simp add: string_eval)
  from lookupZones_exact_precedence [OF key] key longer show ?thesis
    unfolding name by blast
qed

text \<open>
  C6. A botanical result always reports a word of the name, split at spaces, that is
  longer than 4 and on the allow-list. So when the property read, the contains tier and
  the partial tier all fail and no word of the name longer than 4 is on the allow-list,
  the result is null.
\<close>

theorem lookupZones_botanical_restriction:
  "(lookupZones plants plantName = Some r \<and> matchType r = Botanical \<longrightarrow>
      (\<exists>word. matchedWord r = Some word \<and> word \<in> set (split_on 32 plantName) \<and>
          4 < length word \<and> word \<in> set botanicalTerms)) \<and>
   (get_property plants plantName = None \<and>
    (\<forall>key \<in> set (map fst plants). \<not> (js_includes plantName key \<and> 5 \<le> length key)) \<and>
    (\<forall>key \<in> set (map fst plants). \<not> (js_includes key plantName \<and> 6 \<le> length plantName)) \<and>
    (\<forall>word \<in> set (split_on 32 plantName). 4 < length word \<longrightarrow> word \<notin> set botanicalTerms) \<longrightarrow>
      lookupZones plants plantName = None)"
proof (intro conjI impI)
  assume a: "lookupZones plants plantName = Some r \<and> matchType r = Botanical"
  let ?ws = "filter (\<lambda>w. 4 < length w) (split_on 32 plantName)"
  from a have "botanical_scan plants ?ws = Some r"
    by (auto simp: lookupZones_def split: option.splits)
  from botanical_scan_Some [OF this] show
    "\<exists>word. matchedWord r = Some word \<and> word \<in> set (split_on 32 plantName) \<and>
        4 < length word \<and> word \<in> set botanicalTerms"
    by auto
next
  assume a: "get_property plants plantName = None \<and>
    (\<forall>key \<in> set (map fst plants). \<not> (js_includes plantName key \<and> 5 \<le> length key)) \<and>
    (\<forall>key \<in> set (map fst plants). \<not> (js_includes key plantName \<and> 6 \<le> length plantName)) \<and>
    (\<forall>word \<in> set (split_on 32 plantName). 4 < length word \<longrightarrow> word \<notin> set botanicalTerms)"
  then have c: "find (\<lambda>key. js_includes plantName key \<and> 5 \<le> length key) (sortedByLength plants) = None"
    by (auto simp: find_None_iff sortedByLength_def)
  from a have p: "find (\<lambda>key. js_includes key plantName \<and> 6 \<le> length plantName) (map fst plants) = None"
    by (auto simp: find_None_iff)
  from a have "botanical_scan plants (filter (\<lambda>w. 4 < length w) (split_on 32 plantName)) = None"
    by (intro botanical_scan_None) auto
  with a c p show "lookupZones plants plantName = None"
    by (simp add: lookupZones_def)
qed

theorem lookupZones_botanical_restriction_witness:
  "extractPlantName (str ''Little Red Shrub'') = str ''little red'' \<and>
   lookupZones example_plants (extractPlantName (str ''Little Red Shrub'')) = None \<and>
   lookupZones example_plants (extractPlantName (str ''Sweetbay Magnolia'')) =
     Some \<lparr>zones = Some (map str [''7'', ''8'', ''9'']), matchType = Botanical,
           matchedKey = Some (str ''southern magnolia''), matchedWord = Some (str ''magnolia'')\<rparr> \<and>
   str ''magnolia'' \<in> set (split_on 32 (extractPlantName (str ''Sweetbay Magnolia''))) \<and>
   str ''magnolia'' \<in> set botanicalTerms"
proof -
  have name: "extractPlantName (str ''Little Red Shrub'') = str ''little red''"
    by (simp add: string_eval extract_eval)
  have h1: "get_property example_plants (str ''little red'') = None"
    by (simp add: string_eval lookup_eval)
  have h2: "\<forall>key \<in> set (map fst example_plants).
      \<not> (js_includes (str ''little red'') key \<and> 5 \<le> length key)"
    by (simp add: string_eval lookup_eval)
  have h3: "\<forall>key \<in> set (map fst example_plants).
      \<not> (js_includes key (str ''little red'') \<and> 6 \<le> length (str ''little red''))"
    by (simp add: string_eval lookup_eval)
  have h4: "\<forall>word \<in> set (split_on 32 (str ''little red'')).
      4 < length word \<longrightarrow> word \<notin> set botanicalTerms"
    by (simp add: string_eval lookup_eval)
  from h1 h2 h3 h4 lookupZones_botanical_restriction [of example_plants "str ''little red''"]
  have none: "lookupZones example_plants (str ''little red'') = None"
    by blast
  have name2: "extractPlantName (str ''Sweetbay Magnolia'') = str ''sweetbay magnolia''"
    by (simp add: string_eval extract_eval)
  have bot: "lookupZones example_plants (str ''sweetbay magnolia'') =
     Some \<lparr>zones = Some (map str [''7'', ''8'', ''9'']), matchType = Botanical,
           matchedKey = Some (str ''southern magnolia''), matchedWord = Some (str ''magnolia'')\<rparr>"
    by (simp add: string_eval lookup_eval)
  have w: "str ''magnolia'' \<in> set (split_on 32 (str ''sweetbay magnolia'')) \<and>
      str ''magnolia'' \<in> set botanicalTerms"
    by (simp add: string_eval lookup_eval)
  from name none bot w show ?thesis
    unfolding name name2 by blast
qed

text \<open>
  Every result of \<open>lookupZones\<close> for a name that is a key of the database, or is not
  a property name of \<open>Object.prototype\<close>, carries the zones of a key of the database:
  the name itself for an exact match, the reported key otherwise.
\<close>

lemma lookupZones_provenance:
  assumes name: "plantName \<in> set (map fst plants) \<or> plantName \<notin> set object_prototype_keys"
      and res: "lookupZones plants plantName = Some r"
  shows "\<exists>k zs. map_of plants k = Some zs \<and> zones r = Some zs \<and>
           (if matchType r = Exact then k = plantName \<and> matchedKey r = None
            else matchedKey r = Some k)"
proof (cases "get_property plants plantName")
  case (Some p)
  show ?thesis
  proof (cases "map_of plants plantName")
    case None
    then have "plantName \<notin> set (map fst plants)"
      by (simp add: map_of_eq_None_iff)
    with name None Some show ?thesis
      by (simp add: get_property_def)
  next
    case (Some zs)
    with res show ?thesis
      by (auto simp: lookupZones_def get_property_def)
  qed
next
  case None
  let ?C = "\<lambda>key. js_includes plantName key \<and> 5 \<le> length key"
  let ?P = "\<lambda>key. js_includes key plantName \<and> 6 \<le> length plantName"
  have own: "\<exists>zs. map_of plants key = Some zs" if "key \<in> set (map fst plants)" for key
    using that by (metis map_of_eq_None_iff not_Some_eq set_map)
  show ?thesis
  proof (cases "find ?C (sortedByLength plants)")
    case (Some key)
    then have "key \<in> set (map fst plants)"
      by (auto dest: find_Some_mem simp: sortedByLength_def)
    from own [OF this] obtain zs where "map_of plants key = Some zs" ..
    with None Some res show ?thesis
      by (auto simp: lookupZones_def)
  next
    case noC: None
    show ?thesis
    proof (cases "find ?P (map fst plants)")
      case (Some key)
      then have "key \<in> set (map fst plants)"
        by (auto dest: find_Some_mem)
      from own [OF this] obtain zs where "map_of plants key = Some zs" ..
      with None noC Some res show ?thesis
        by (auto simp: lookupZones_def)
    next
      case noP: None
      with None noC res have
        "botanical_scan plants (filter (\<lambda>w. 4 < length w) (split_on 32 plantName)) = Some r"
        by (simp add: lookupZones_def)
      from botanical_scan_Some [OF this] obtain word key
        where key: "key \<in> set (map fst plants)"
          and r: "r = \<lparr>zones = map_of plants key, matchType = Botanical,
                       matchedKey = Some key, matchedWord = Some word\<rparr>"
        by blast
      from own [OF key] obtain zs where "map_of plants key = Some zs" ..
      with r show ?thesis by auto
    qed
  qed
qed

text \<open>
  The contains tier away from the names that every object inherits. When no key of
  length 5 or more occurs inside such a name (\<open>constructor\<close>, \<open>toString\<close>, ...), then
  for every name that is not a key of the database and contains a key of length 5 or
  more, \<open>lookupZones\<close> answers with match type contains, reporting a key of the database
  that occurs in the name, has length 5 or more and is at least as long as every other
  such key, together with the zones of that key.
\<close>

lemma lookupZones_contains_own_keys:
  assumes db: "\<forall>name \<in> set object_prototype_keys. \<forall>key \<in> set (map fst plants).
                 5 \<le> length key \<longrightarrow> \<not> js_includes name key"
      and no_key: "plantName \<notin> set (map fst plants)"
      and ex: "\<exists>key \<in> set (map fst plants). 5 \<le> length key \<and> js_includes plantName key"
  shows "\<exists>key. lookupZones plants plantName =
             Some \<lparr>zones = map_of plants key, matchType = Contains,
                   matchedKey = Some key, matchedWord = None\<rparr> \<and>
           key \<in> set (map fst plants) \<and> 5 \<le> length key \<and> js_includes plantName key \<and>
           (\<exists>zs. map_of plants key = Some zs) \<and>
           (\<forall>other \<in> set (map fst plants).
               5 \<le> length other \<and> js_includes plantName other \<longrightarrow> length other \<le> length key)"
proof -
  from db ex have "plantName \<notin> set object_prototype_keys" by blast
  moreover from no_key have "map_of plants plantName = None"
    by (simp add: map_of_eq_None_iff)
  ultimately have "get_property plants plantName = None"
    by (simp add: get_property_def)
  from lookupZones_contains_longest [OF this ex] show ?thesis .
qed


text \<open>
  C10, at the input where the code leaves the claim. A product titled \<open>Constructor\<close>
  normalises to \<open>constructor\<close>, which is no key of the database; \<open>lookupZones\<close> still
  returns a result, of match type exact, whose \<open>zones\<close> field is undefined: it is the
  \<open>zones\<close> property of the inherited \<open>Object.prototype.constructor\<close>, not the zones of
  any database entry.
\<close>

theorem lookupZones_zones_not_from_database:
  "extractPlantName (str ''Constructor'') = str ''constructor'' \<and>
   str ''constructor'' \<notin> set (map fst example_plants) \<and>
   lookupZones example_plants (extractPlantName (str ''Constructor'')) =
     Some \<lparr>zones = None, matchType = Exact, matchedKey = None, matchedWord = None\<rparr> \<and>
   lookupZones [] (extractPlantName (str ''Constructor'')) =
     Some \<lparr>zones = None, matchType = Exact, matchedKey = None, matchedWord = None\<rparr>"
proof -
  have name: "extractPlantName (str ''Constructor'') = str ''constructor''"
    by (simp add: string_eval extract_eval)
  have "lookupZones example_plants (str ''constructor'') =
     Some \<lparr>zones = None, matchType = Exact, matchedKey = None, matchedWord = None\<rparr>"
    by (simp add: string_eval lookup_eval)
  moreover have "lookupZones [] (str ''constructor'') =
     Some \<lparr>zones = None, matchType = Exact, matchedKey = None, matchedWord = None\<rparr>"
    by (simp add: string_eval lookup_eval)
  moreover have "str ''constructor'' \<notin> set (map fst example_plants)"
    by (simp add: string_eval example_plants_def)
  ultimately show ?thesis
    unfolding name using name by blast
qed

section \<open>Zone lists: facts and claims\<close>

lemma has_zone_word_iff:
  "has_zone_word z \<longleftrightarrow> (\<exists>a. z = JString a \<and> contains_ci (str ''zone'') a)"
  by (cases z) (simp_all add: has_zone_word_def includes_zone_ci)

lemma lacks_zone_word_iff:
  "lacks_zone_word z \<longleftrightarrow> (\<exists>b. z = JString b \<and> \<not> contains_ci (str ''zone'') b)"
  by (cases z) (simp_all add: lacks_zone_word_def includes_zone_ci)

lemma list_ex_has_zone_word:
  "list_ex has_zone_word zs \<longleftrightarrow> (\<exists>a. JString a \<in> set zs \<and> contains_ci (str ''zone'') a)"
  unfolding list_ex_iff has_zone_word_iff by blast

lemma list_ex_lacks_zone_word:
  "list_ex lacks_zone_word zs \<longleftrightarrow> (\<exists>b. JString b \<in> set zs \<and> \<not> contains_ci (str ''zone'') b)"
  unfolding list_ex_iff lacks_zone_word_iff by blast

text \<open>
  C8. \<open>analyzeZoneFormat\<close> gives every zones value one of the four labels; null and
  the empty list are labelled none; the label is mixed exactly when the list has a string
  element that contains "zone" in some mix of cases and a string element that does not;
  and the three lists of the specification are labelled old, new and mixed.
\<close>

theorem analyzeZoneFormat_classification:
  fixes zones :: "jsval list option"
  shows
  "analyzeZoneFormat zones \<in> {Format_none, Format_old, Format_new, Format_mixed} \<and>
   analyzeZoneFormat None = Format_none \<and>
   analyzeZoneFormat (Some []) = Format_none \<and>
   (analyzeZoneFormat zones = Format_mixed \<longleftrightarrow>
      (\<exists>zs. zones = Some zs \<and>
         (\<exists>a. JString a \<in> set zs \<and> contains_ci (str ''zone'') a) \<and>
         (\<exists>b. JString b \<in> set zs \<and> \<not> contains_ci (str ''zone'') b))) \<and>
   analyzeZoneFormat (Some [JString (str ''zone-7'')]) = Format_old \<and>
   analyzeZoneFormat (Some [JString (str ''7'')]) = Format_new \<and>
   analyzeZoneFormat (Some [JString (str ''zone-7''), JString (str ''7'')]) = Format_mixed"
proof -
  have total: "analyzeZoneFormat zones \<in> {Format_none, Format_old, Format_new, Format_mixed}"
    by (cases "analyzeZoneFormat zones") simp_all
  have none: "analyzeZoneFormat None = Format_none \<and> analyzeZoneFormat (Some []) = Format_none"
    by (simp add: analyzeZoneFormat_def)
  have mixed: "analyzeZoneFormat zones = Format_mixed \<longleftrightarrow>
      (\<exists>zs. zones = Some zs \<and>
         (\<exists>a. JString a \<in> set zs \<and> contains_ci (str ''zone'') a) \<and>
         (\<exists>b. JString b \<in> set zs \<and> \<not> contains_ci (str ''zone'') b))"
  proof (cases zones)
    case None
    then show ?thesis by (simp add: analyzeZoneFormat_def)
  next
    case (Some zs)
    have "analyzeZoneFormat (Some zs) = Format_mixed \<longleftrightarrow>
        list_ex has_zone_word zs \<and> list_ex lacks_zone_word zs"
      by (cases zs) (simp_all add: analyzeZoneFormat_def Let_def)
    with Some show ?thesis
      by (simp add: list_ex_has_zone_word list_ex_lacks_zone_word)
  qed
  have old: "analyzeZoneFormat (Some [JString (str ''zone-7'')]) = Format_old"
    by (simp add: analyzeZoneFormat_def has_zone_word_def lacks_zone_word_def string_eval)
  have new: "analyzeZoneFormat (Some [JString (str ''7'')]) = Format_new"
    by (simp add: analyzeZoneFormat_def has_zone_word_def lacks_zone_word_def string_eval)
  have both: "analyzeZoneFormat (Some [JString (str ''zone-7''), JString (str ''7'')]) = Format_mixed"
    by (simp add: analyzeZoneFormat_def has_zone_word_def lacks_zone_word_def string_eval)
  from total none mixed old new both show ?thesis by blast
qed

text \<open>
  Outside the \<open>zone-N\<close> form the three \<open>replace\<close> calls, which have string patterns,
  take out one occurrence each: the element \<open>zone-5-9\<close> becomes \<open>5-9\<close>.
\<close>

lemma normalizeZoneFormat_single_occurrences:
  "normalizeZoneFormat [JString (str ''zone-5-9'')] = Inr [str ''5-9'']"
  by (simp add: normalizeZone_def string_eval)

lemma normalizeZoneFormat_strings:
  "normalizeZoneFormat (map JString zs) = Inr (map normalizeZone zs)"
  by (induction zs) simp_all

lemma replace_first_absent: "\<not> js_includes s p \<Longrightarrow> replace_first p r s = s"
  by (induction s) auto

lemma remove_all_absent: "\<not> js_includes s p \<Longrightarrow> remove_all p s = s"
  by (induction p s rule: remove_all.induct) auto

lemma js_includes_unit: "js_includes s [c] \<longleftrightarrow> c \<in> set s"
  by (induction s) (auto simp: starts_with_def)

lemma trim_no_space:
  assumes "\<not> list_ex is_space n"
  shows "trim n = n"
proof -
  from assms have all: "\<forall>c \<in> set n. \<not> is_space c"
    by (simp add: list_ex_iff)
  then have a: "dropWhile is_space n = n"
    by (cases n) auto
  from all have "\<forall>c \<in> set (rev n). \<not> is_space c" by simp
  then have b: "dropWhile is_space (rev n) = rev n"
    by (cases "rev n") auto
  show ?thesis by (simp only: trim_def a b rev_rev_ident)
qed

text \<open>On an element of the \<open>zone-N\<close> form the code and the wording of the claim agree.\<close>

lemma normalizeZone_zone_N_form:
  assumes "zone_N_form z"
  shows "normalizeZone z = spec_normalizeZone z"
proof -
  let ?l = "toLowerCase z"
  let ?n = "if starts_with (str ''zone-'') ?l then drop 5 ?l else ?l"
  from assms have zone: "\<not> js_includes ?n (str ''zone'')" and hyphen: "45 \<notin> set ?n"
    and space: "\<not> list_ex is_space ?n"
    by (simp_all add: zone_N_form_def Let_def)
  have "is_space 32" by (simp add: is_space_def)
  with space have blank: "32 \<notin> set ?n" by (auto simp: list_ex_iff)
  have keep: "filter (\<lambda>c. c \<noteq> 45 \<and> c \<noteq> 32) ?n = ?n"
    using hyphen blank by (auto simp: filter_id_conv)
  have no_hyphen: "replace_first (str ''-'') [] ?n = ?n"
    using hyphen by (intro replace_first_absent) (simp add: str_def js_includes_unit)
  have no_blank: "replace_first (str '' '') [] ?n = ?n"
    using blank by (intro replace_first_absent) (simp add: str_def js_includes_unit)
  show ?thesis
  proof (cases "starts_with (str ''zone-'') ?l")
    case True
    then have n: "?n = drop 5 ?l" by simp
    have len: "length (str ''zone-'') = 5" by (simp add: str_def)
    from True have "take 5 ?l = str ''zone-''"
      by (simp only: starts_with_def len)
    then have l: "?l = str ''zone-'' @ drop 5 ?l"
      by (metis append_take_drop_id)
    define n where "n = drop 5 ?l"
    with True have n': "?n = n" by simp
    from zone have zone': "\<not> js_includes n (str ''zone'')" unfolding n' .
    from keep have keep': "filter (\<lambda>c. c \<noteq> 45 \<and> c \<noteq> 32) n = n" unfolding n' .
    from no_blank have no_blank': "replace_first (str '' '') [] n = n" unfolding n' .
    from space have space': "\<not> list_ex is_space n" unfolding n' .
    from l have l': "?l = str ''zone-'' @ n" by (simp only: n_def)
    have a: "replace_first (str ''zone'') [] (str ''zone-'' @ n) = 45 # n"
      by (simp add: str_def starts_with_def)
    have b: "replace_first (str ''-'') [] (45 # n) = n"
      by (simp add: str_def starts_with_def)
    have code: "normalizeZone z = n"
      by (simp only: normalizeZone_def l' a b no_blank' trim_no_space [OF space'])
    have "remove_all (str ''zone'') (str ''zone-'' @ n) = 45 # remove_all (str ''zone'') n"
      by (simp add: str_def starts_with_def)
    also have "\<dots> = 45 # n"
      using zone' by (simp add: remove_all_absent)
    finally have "spec_normalizeZone z = n"
      using keep' by (simp add: spec_normalizeZone_def l')
    with code show ?thesis by simp
  next
    case False
    then have n: "?n = ?l" by simp
    from zone n have z: "\<not> js_includes ?l (str ''zone'')" by simp
    from keep no_hyphen no_blank space n
    have k: "filter (\<lambda>c. c \<noteq> 45 \<and> c \<noteq> 32) ?l = ?l" "replace_first (str ''-'') [] ?l = ?l"
      "replace_first (str '' '') [] ?l = ?l" "\<not> list_ex is_space ?l"
      by simp_all
    have "normalizeZone z = ?l"
      by (simp only: normalizeZone_def replace_first_absent [OF z] k(2,3) trim_no_space [OF k(4)])
    moreover have "spec_normalizeZone z = ?l"
      by (simp only: spec_normalizeZone_def remove_all_absent [OF z] k(1))
    ultimately show ?thesis by simp
  qed
qed

text \<open>
  C3. On a list in the legacy format, every element being of the form \<open>zone-N\<close> (or
  \<open>N\<close> alone) in some mix of cases, \<open>normalizeZoneFormat\<close> maps every element to that
  element in lower case with the word "zone", the hyphens and the spaces taken out, so
  that \<open>zone-7\<close> becomes \<open>7\<close>; and \<open>needsNormalization\<close> holds exactly when some string
  element contains "zone" in some mix of cases.
\<close>

theorem normalizeZoneFormat_legacy_format:
  fixes zones :: "jsval list"
  shows
  "(list_all zone_N_form zs \<longrightarrow>
      normalizeZoneFormat (map JString zs) = Inr (map spec_normalizeZone zs)) \<and>
   normalizeZoneFormat [JString (str ''zone-7'')] = Inr [str ''7''] \<and>
   (needsNormalization zones \<longleftrightarrow>
      (\<exists>a. JString a \<in> set zones \<and> contains_ci (str ''zone'') a))"
proof -
  have legacy: "normalizeZoneFormat (map JString zs) = Inr (map spec_normalizeZone zs)"
    if "list_all zone_N_form zs"
  proof -
    from that have "map normalizeZone zs = map spec_normalizeZone zs"
      by (auto simp: list_all_iff normalizeZone_zone_N_form)
    then show ?thesis by (simp add: normalizeZoneFormat_strings)
  qed
  have seven: "normalizeZoneFormat [JString (str ''zone-7'')] = Inr [str ''7'']"
    by (simp add: normalizeZone_def string_eval)
  have needs: "needsNormalization zones \<longleftrightarrow>
      (\<exists>a. JString a \<in> set zones \<and> contains_ci (str ''zone'') a)"
    unfolding needsNormalization_def by (rule list_ex_has_zone_word)
  from legacy seven needs show ?thesis by blast
qed

theorem normalizeZoneFormat_legacy_format_witness:
  "normalizeZoneFormat (map JString [str ''zone-7'', str ''Zone-10a'', str ''8b'']) =
     Inr [str ''7'', str ''10a'', str ''8b''] \<and>
   map spec_normalizeZone [str ''zone-7'', str ''Zone-10a'', str ''8b''] =
     [str ''7'', str ''10a'', str ''8b'']"
proof -
  have h: "list_all zone_N_form [str ''zone-7'', str ''Zone-10a'', str ''8b'']"
    by (simp add: zone_N_form_def string_eval)
  have s: "map spec_normalizeZone [str ''zone-7'', str ''Zone-10a'', str ''8b''] =
      [str ''7'', str ''10a'', str ''8b'']"
    by (simp add: spec_normalizeZone_def string_eval)
  from h normalizeZoneFormat_legacy_format [of "[str ''zone-7'', str ''Zone-10a'', str ''8b'']" "[]"]
  have "normalizeZoneFormat (map JString [str ''zone-7'', str ''Zone-10a'', str ''8b'']) =
      Inr (map spec_normalizeZone [str ''zone-7'', str ''Zone-10a'', str ''8b''])"
    by blast
  with s show ?thesis by simp
qed

section \<open>Name extraction: facts and claims\<close>










lemma trim_ends: "trim s = [] \<or> (\<not> is_space (hd (trim s)) \<and> \<not> is_space (last (trim s)))"
proof (cases "trim s = []")
  case True
  then show ?thesis by simp
next
  case False
  let ?d = "dropWhile is_space s"
  let ?e = "dropWhile is_space (rev ?d)"
  from False have e: "?e \<noteq> []" by (simp add: trim_def)
  then have d: "?d \<noteq> []"
    by (metis dropWhile.simps(1) rev.simps(1))
  from e have "\<not> is_space (hd ?e)" by (rule hd_dropWhile)
  with e have l: "\<not> is_space (last (trim s))"
    by (simp add: trim_def last_rev)
  have "rev ?d = takeWhile is_space (rev ?d) @ ?e" by simp
  with e have "last ?e = last (rev ?d)"
    by (metis last_appendR)
  with d have "last ?e = hd ?d" by (simp add: last_rev)
  moreover from d have "\<not> is_space (hd ?d)" by (rule hd_dropWhile)
  ultimately have "\<not> is_space (hd (trim s))"
    using e by (simp add: trim_def hd_rev)
  with l show ?thesis by blast
qed

lemma trim_fixed:
  assumes "s = [] \<or> (\<not> is_space (hd s) \<and> \<not> is_space (last s))"
  shows "trim s = s"
proof (cases s)
  case Nil
  then show ?thesis by (simp add: trim_def)
next
  case (Cons c cs)
  with assms have h: "\<not> is_space (hd s)" and l: "\<not> is_space (last s)" by auto
  from Cons h have a: "dropWhile is_space s = s" by simp
  from Cons obtain x xs where r: "rev s = x # xs"
    by (cases "rev s") auto
  with Cons have "x = last s"
    by (metis hd_rev list.sel(1))
  with l have "dropWhile is_space (x # xs) = x # xs" by simp
  then have "dropWhile is_space (rev s) = rev s" by (simp only: r)
  with a show ?thesis by (simp add: trim_def)
qed

lemma trim_idem: "trim (trim s) = trim s"
  by (rule trim_fixed) (rule trim_ends)



















end
